theory Spec2Isabelle
  imports Complex_Main "HOL-Library.AList" "HOL-Library.Code_Target_Nat"
begin

section \<open>Python values\<close>

text \<open>
  The scraper is Python. A \<open>str\<close> is modelled as the list of its code points
  (\<open>pystr\<close>); \<open>u\<close> turns an ASCII literal of the source into such a list. The keys of
  dictionaries and the CSS selectors are literals of the program and stay HOL strings.
  An exception (any instance of \<open>Exception\<close>) is a value of
  \<open>exn\<close>, and a computation that may raise returns \<open>exn + 'a\<close> with \<open>Inl\<close> the raise.
  A job record is a Python \<open>dict\<close> with \<open>str\<close> keys: an association list in insertion
  order, read with \<open>map_of\<close> and written with \<open>AList.update\<close> (an existing key keeps its
  place, a new key goes to the end), as \<open>d[k] = v\<close> does.
  The type \<open>'f\<close> stands for Python's \<open>float\<close>.
\<close>

type_synonym pystr = "nat list"

definition u :: "string \<Rightarrow> pystr" where
  "u s = map of_char s"

datatype exn = Exn string

datatype 'f pyval =
    PNone
  | PBool bool
  | PInt int
  | PFloat 'f
  | PStr pystr
  | PList "'f pyval list"
  | PDict "(string \<times> 'f pyval) list"

type_synonym 'f pydict = "(string \<times> 'f pyval) list"

text \<open>Truth value of an object, as \<open>if x:\<close> and \<open>not x\<close> test it.\<close>

fun truthy :: "('f::zero) pyval \<Rightarrow> bool" where
  "truthy PNone = False"
| "truthy (PBool b) = b"
| "truthy (PInt i) = (i \<noteq> 0)"
| "truthy (PFloat x) = (x \<noteq> 0)"
| "truthy (PStr s) = (s \<noteq> [])"
| "truthy (PList xs) = (xs \<noteq> [])"
| "truthy (PDict kvs) = (kvs \<noteq> [])"

text \<open>\<open>d.get(k)\<close>: the value, or \<open>None\<close> for a missing key.\<close>

definition dict_get :: "'f pydict \<Rightarrow> string \<Rightarrow> 'f pyval" where
  "dict_get d k = (case map_of d k of Some v \<Rightarrow> v | None \<Rightarrow> PNone)"

text \<open>\<open>d.get(k, default)\<close>.\<close>

definition dict_get_default :: "'f pydict \<Rightarrow> string \<Rightarrow> 'f pyval \<Rightarrow> 'f pyval" where
  "dict_get_default d k dflt = (case map_of d k of Some v \<Rightarrow> v | None \<Rightarrow> dflt)"

text \<open>\<open>k in d\<close>.\<close>

definition dict_has :: "'f pydict \<Rightarrow> string \<Rightarrow> bool" where
  "dict_has d k = (map_of d k \<noteq> None)"

text \<open>\<open>d[k] = v\<close>.\<close>

definition dict_set :: "string \<Rightarrow> 'f pyval \<Rightarrow> 'f pydict \<Rightarrow> 'f pydict" where
  "dict_set k v d = AList.update k v d"

section \<open>Python strings\<close>

text \<open>
  \<open>str.isspace\<close> of a character, which is also what \<open>str.strip()\<close> removes: the code
  points that CPython's \<open>_PyUnicode_IsWhitespace\<close> accepts.
\<close>

definition is_space :: "nat \<Rightarrow> bool" where
  "is_space c = (c \<in> set [9, 10, 11, 12, 13, 28, 29, 30, 31, 32, 133, 160, 5760,
                           8232, 8233, 8239, 8287, 12288]
     \<or> (8192 \<le> c \<and> c \<le> 8202))"

text \<open>\<open>s.strip()\<close>.\<close>

definition py_strip :: "pystr \<Rightarrow> pystr" where
  "py_strip s = rev (dropWhile is_space (rev (dropWhile is_space s)))"

text \<open>\<open>s.startswith(p)\<close>.\<close>

definition startswith :: "pystr \<Rightarrow> pystr \<Rightarrow> bool" where
  "startswith s p = (take (length p) s = p)"

text \<open>\<open>k in s\<close> for two strings: \<open>k\<close> occurs in \<open>s\<close> as a contiguous piece.\<close>

fun str_in :: "pystr \<Rightarrow> pystr \<Rightarrow> bool" where
  "str_in k [] = (k = [])"
| "str_in k (c # cs) = (startswith (c # cs) k \<or> str_in k cs)"

text \<open>\<open>s.split(sep)\<close> for a separator of one character; the result is never empty.\<close>

fun split_chr :: "nat \<Rightarrow> pystr \<Rightarrow> pystr list" where
  "split_chr sep [] = [[]]"
| "split_chr sep (c # cs) =
     (if c = sep then [] # split_chr sep cs
      else (case split_chr sep cs of [] \<Rightarrow> [[c]] | p # ps \<Rightarrow> (c # p) # ps))"

text \<open>\<open>sep.join(xs)\<close>.\<close>

fun join :: "pystr \<Rightarrow> pystr list \<Rightarrow> pystr" where
  "join sep [] = []"
| "join sep [x] = x"
| "join sep (x # xs) = x @ sep @ join sep xs"

text \<open>\<open>s.replace(a, b)\<close> for single characters \<open>a\<close> and \<open>b\<close>.\<close>

definition replace_chr :: "nat \<Rightarrow> nat \<Rightarrow> pystr \<Rightarrow> pystr" where
  "replace_chr a b s = map (\<lambda>c. if c = a then b else c) s"

text \<open>
  \<open>s.encode('utf-8')\<close> succeeds unless \<open>s\<close> holds a surrogate code point (\<open>U+D800\<close> to
  \<open>U+DFFF\<close>).
\<close>

definition utf8_encodable :: "pystr \<Rightarrow> bool" where
  "utf8_encodable s = (\<forall>c \<in> set s. \<not> (55296 \<le> c \<and> c \<le> 57343))"

section \<open>The \<open>re\<close> module\<close>

text \<open>
  A regular expression of the source is written as a syntax tree: \<open>r'\d+[,\d]*'\<close> is
  \<open>RSeq (RPlus RDigit) (RStar (RSet [CChr 44, CDigit]))\<close>. \<open>RGroup k\<close> is the \<open>k\<close>-th
  capturing group, counted by opening parentheses; a non-capturing group \<open>(?:...)\<close>
  leaves no node. \<open>RStr\<close> spells a literal word, \<open>RSeqs\<close> and \<open>RAlts\<close> a sequence and an
  alternation \<open>a|b|c\<close>.
\<close>

datatype citem = CChr nat | CRange nat nat | CDigit | CSpace

datatype regex =
    RChr nat | RSet "citem list" | RNotSet "citem list" | RDigit | RSpace | RWordB
  | RBol | REol | REps
  | RSeq regex regex | RAlt regex regex | ROpt regex | RStar regex | RPlus regex
  | RPlusLazy regex | RGroup nat regex

fun RStr :: "string \<Rightarrow> regex" where
  "RStr [] = REps"
| "RStr [c] = RChr (of_char c)"
| "RStr (c # cs) = RSeq (RChr (of_char c)) (RStr cs)"

fun RSeqs :: "regex list \<Rightarrow> regex" where
  "RSeqs [] = REps"
| "RSeqs [r] = r"
| "RSeqs (r # rs) = RSeq r (RSeqs rs)"

fun RAlts :: "regex list \<Rightarrow> regex" where
  "RAlts [] = REps"
| "RAlts [r] = r"
| "RAlts (r # rs) = RAlt r (RAlts rs)"

text \<open>
  A match object: \<open>m.start()\<close>, \<open>m.end()\<close>, \<open>m.group(0)\<close> and the captured groups;
  \<open>m.group(k)\<close> is \<open>None\<close> for a group that took no part in the match.
\<close>

record rmatch =
  mt_start :: nat
  mt_end :: nat
  mt_group0 :: pystr
  mt_groups :: "(nat \<times> pystr) list"

definition group :: "rmatch \<Rightarrow> nat \<Rightarrow> pystr option" where
  "group m k = (if k = 0 then Some (mt_group0 m) else map_of (mt_groups m) k)"

text \<open>
  The library functions the program calls are parameters of the model: every definition
  below takes the library \<open>L\<close> and every theorem holds for each library. \<open>re_search r ci s\<close>
  is \<open>re.search(r, s)\<close>, with flag \<open>re.IGNORECASE\<close> when \<open>ci\<close>; \<open>re_match\<close> is \<open>re.match\<close>;
  \<open>re_finditer\<close> lists the matches that \<open>re.findall\<close> reports; \<open>re_sub r repl s\<close> is
  \<open>re.sub(r, repl, s)\<close>; \<open>re_split\<close> is \<open>re.split\<close>. On a compiled constant pattern and a
  \<open>str\<close> none of them raises. \<open>str_lower\<close> and \<open>str_upper\<close> are \<open>str.lower\<close> and
  \<open>str.upper\<close>.
\<close>

record pylib =
  str_lower :: "pystr \<Rightarrow> pystr"
  str_upper :: "pystr \<Rightarrow> pystr"
  re_search :: "regex \<Rightarrow> bool \<Rightarrow> pystr \<Rightarrow> rmatch option"
  re_match :: "regex \<Rightarrow> pystr \<Rightarrow> rmatch option"
  re_finditer :: "regex \<Rightarrow> pystr \<Rightarrow> rmatch list"
  re_sub :: "regex \<Rightarrow> pystr \<Rightarrow> pystr \<Rightarrow> pystr"
  re_split :: "regex \<Rightarrow> pystr \<Rightarrow> pystr list"

subsection \<open>A backtracking matcher\<close>

text \<open>
  One library, \<open>pyre\<close>, is defined here so that the model runs: a backtracking matcher
  with the priorities of \<open>re\<close> (leftmost start; greedy before lazy; alternatives left to
  right). The character classes and the case folding are those of Python for code points
  below 256.
\<close>

definition is_digit :: "nat \<Rightarrow> bool" where
  "is_digit c = (48 \<le> c \<and> c \<le> 57)"

definition is_word :: "nat \<Rightarrow> bool" where
  "is_word c = ((48 \<le> c \<and> c \<le> 57) \<or> (65 \<le> c \<and> c \<le> 90) \<or> (97 \<le> c \<and> c \<le> 122) \<or> c = 95
     \<or> c \<in> set [170, 178, 179, 181, 185, 186, 188, 189, 190]
     \<or> (192 \<le> c \<and> c \<le> 255 \<and> c \<noteq> 215 \<and> c \<noteq> 247))"

definition lower_cp :: "nat \<Rightarrow> nat" where
  "lower_cp c =
     (if (65 \<le> c \<and> c \<le> 90) \<or> (192 \<le> c \<and> c \<le> 222 \<and> c \<noteq> 215) then c + 32 else c)"

definition upper_cp :: "nat \<Rightarrow> pystr" where
  "upper_cp c =
     (if (97 \<le> c \<and> c \<le> 122) \<or> (224 \<le> c \<and> c \<le> 254 \<and> c \<noteq> 247) then [c - 32]
      else if c = 223 then [83, 83]
      else if c = 181 then [924]
      else if c = 255 then [376]
      else [c])"

definition eq_cp :: "bool \<Rightarrow> nat \<Rightarrow> nat \<Rightarrow> bool" where
  "eq_cp ci p c = (if ci then lower_cp p = lower_cp c else p = c)"

fun in_item :: "bool \<Rightarrow> nat \<Rightarrow> citem \<Rightarrow> bool" where
  "in_item ci c (CChr p) = eq_cp ci p c"
| "in_item ci c (CRange lo hi) =
     ((lo \<le> c \<and> c \<le> hi) \<or> (ci \<and> ((lo \<le> lower_cp c \<and> lower_cp c \<le> hi)
        \<or> (\<exists>p \<in> set [lo..<Suc hi]. lower_cp p = c))))"
| "in_item ci c CDigit = is_digit c"
| "in_item ci c CSpace = is_space c"

record mstate =
  m_prev :: "nat option"
  m_rest :: pystr
  m_pos :: nat
  m_caps :: "(nat \<times> pystr) list"

definition eat :: "(nat \<Rightarrow> bool) \<Rightarrow> mstate \<Rightarrow> mstate list" where
  "eat P s = (case m_rest s of [] \<Rightarrow> []
     | c # cs \<Rightarrow> if P c then [s\<lparr>m_prev := Some c, m_rest := cs, m_pos := Suc (m_pos s)\<rparr>]
                else [])"

definition at_boundary :: "mstate \<Rightarrow> bool" where
  "at_boundary s = ((case m_prev s of None \<Rightarrow> False | Some c \<Rightarrow> is_word c)
                   \<noteq> (case m_rest s of [] \<Rightarrow> False | c # _ \<Rightarrow> is_word c))"

definition capture :: "nat \<Rightarrow> mstate \<Rightarrow> mstate \<Rightarrow> mstate" where
  "capture k s s' =
     s'\<lparr>m_caps := AList.update k (take (m_pos s' - m_pos s) (m_rest s)) (m_caps s')\<rparr>"

text \<open>
  \<open>rx ci n r s\<close> lists, in the order in which backtracking tries them, the states in
  which \<open>r\<close> can end when started in \<open>s\<close>. A repetition goes on only after an iteration
  that consumed a character; the counter \<open>n\<close> bounds the iterations and is started above
  the length of the text, so it never cuts a repetition short.
\<close>

fun rx :: "bool \<Rightarrow> nat \<Rightarrow> regex \<Rightarrow> mstate \<Rightarrow> mstate list" where
  "rx ci n (RChr p) s = eat (eq_cp ci p) s"
| "rx ci n (RSet items) s = eat (\<lambda>c. \<exists>i \<in> set items. in_item ci c i) s"
| "rx ci n (RNotSet items) s = eat (\<lambda>c. \<not> (\<exists>i \<in> set items. in_item ci c i)) s"
| "rx ci n RDigit s = eat is_digit s"
| "rx ci n RSpace s = eat is_space s"
| "rx ci n RWordB s = (if at_boundary s then [s] else [])"
| "rx ci n RBol s = (if m_pos s = 0 then [s] else [])"
| "rx ci n REol s = (if m_rest s = [] \<or> m_rest s = [10] then [s] else [])"
| "rx ci n REps s = [s]"
| "rx ci n (RSeq a b) s = concat (map (rx ci n b) (rx ci n a s))"
| "rx ci n (RAlt a b) s = rx ci n a s @ rx ci n b s"
| "rx ci n (ROpt a) s = rx ci n a s @ [s]"
| "rx ci n (RGroup k a) s = map (capture k s) (rx ci n a s)"
| "rx ci 0 (RStar a) s = [s]"
| "rx ci (Suc n) (RStar a) s =
     concat (map (\<lambda>s'. if m_pos s < m_pos s' then rx ci n (RStar a) s' else [])
                 (rx ci (Suc n) a s)) @ [s]"
| "rx ci 0 (RPlus a) s = []"
| "rx ci (Suc n) (RPlus a) s =
     concat (map (\<lambda>s'. (if m_pos s < m_pos s' then rx ci n (RPlus a) s' else []) @ [s'])
                 (rx ci (Suc n) a s))"
| "rx ci 0 (RPlusLazy a) s = []"
| "rx ci (Suc n) (RPlusLazy a) s =
     concat (map (\<lambda>s'. s' # (if m_pos s < m_pos s' then rx ci n (RPlusLazy a) s' else []))
                 (rx ci (Suc n) a s))"

definition match_here :: "bool \<Rightarrow> regex \<Rightarrow> nat option \<Rightarrow> nat \<Rightarrow> pystr \<Rightarrow> rmatch option" where
  "match_here ci r prev pos rest =
     (case rx ci (Suc (length rest)) r \<lparr>m_prev = prev, m_rest = rest, m_pos = pos, m_caps = []\<rparr> of
        [] \<Rightarrow> None
      | s' # _ \<Rightarrow> Some \<lparr>mt_start = pos, mt_end = m_pos s',
                        mt_group0 = take (m_pos s' - pos) rest, mt_groups = m_caps s'\<rparr>)"

fun search_from :: "bool \<Rightarrow> regex \<Rightarrow> nat option \<Rightarrow> nat \<Rightarrow> pystr \<Rightarrow> rmatch option" where
  "search_from ci r prev pos [] = match_here ci r prev pos []"
| "search_from ci r prev pos (c # cs) =
     (case match_here ci r prev pos (c # cs) of
        Some m \<Rightarrow> Some m
      | None \<Rightarrow> search_from ci r (Some c) (Suc pos) cs)"

text \<open>The successive matches, each search starting where the last match ended.\<close>

fun finditer_from :: "nat \<Rightarrow> bool \<Rightarrow> regex \<Rightarrow> nat option \<Rightarrow> nat \<Rightarrow> pystr \<Rightarrow> rmatch list" where
  "finditer_from 0 ci r prev pos rest = []"
| "finditer_from (Suc n) ci r prev pos rest =
     (case search_from ci r prev pos rest of
        None \<Rightarrow> []
      | Some m \<Rightarrow>
          (let k = (if mt_end m = mt_start m then Suc (mt_end m) else mt_end m) - pos in
           m # (if k \<le> length rest \<and> 0 < k
                then finditer_from n ci r (Some (rest ! (k - 1))) (pos + k) (drop k rest)
                else [])))"

definition py_search :: "regex \<Rightarrow> bool \<Rightarrow> pystr \<Rightarrow> rmatch option" where
  "py_search r ci s = search_from ci r None 0 s"

definition py_match :: "regex \<Rightarrow> pystr \<Rightarrow> rmatch option" where
  "py_match r s = match_here False r None 0 s"

definition py_finditer :: "regex \<Rightarrow> pystr \<Rightarrow> rmatch list" where
  "py_finditer r s = finditer_from (Suc (length s)) False r None 0 s"

fun pieces :: "pystr \<Rightarrow> nat \<Rightarrow> rmatch list \<Rightarrow> pystr list" where
  "pieces s pos [] = [drop pos s]"
| "pieces s pos (m # ms) = take (mt_start m - pos) (drop pos s) # pieces s (mt_end m) ms"

definition py_sub :: "regex \<Rightarrow> pystr \<Rightarrow> pystr \<Rightarrow> pystr" where
  "py_sub r repl s =
     (let ps = pieces s 0 (py_finditer r s) in concat (hd ps # map (\<lambda>p. repl @ p) (tl ps)))"

fun weave :: "pystr list \<Rightarrow> rmatch list \<Rightarrow> pystr list" where
  "weave (p # ps) (m # ms) = p # map snd (mt_groups m) @ weave ps ms"
| "weave ps [] = ps"
| "weave [] ms = []"

definition py_split :: "regex \<Rightarrow> pystr \<Rightarrow> pystr list" where
  "py_split r s = (let ms = py_finditer r s in weave (pieces s 0 ms) ms)"

definition pyre :: pylib where
  "pyre = \<lparr>str_lower = map lower_cp,
           str_upper = (\<lambda>s. concat (map upper_cp s)),
           re_search = py_search, re_match = py_match, re_finditer = py_finditer,
           re_sub = py_sub, re_split = py_split\<rparr>"

text \<open>The characters of a class \<open>[...]\<close> that are given literally.\<close>

definition CStr :: "string \<Rightarrow> citem list" where
  "CStr s = map (\<lambda>c. CChr (of_char c)) s"

section \<open>Job type (\<open>run_improved_ziprecruiter.py\<close>, \<open>extract_job_type\<close>)\<close>

text \<open>
  The dictionary \<open>job_type_patterns\<close>, in insertion order, which is the order in which
  \<open>.items()\<close> yields it. The source lists:
  \<^item> \<open>"Full-time"\<close>: \<open>full[- ]?time\<close>, \<open>full time\<close>, \<open>permanent\<close>, \<open>regular\<close>, \<open>ft\b\<close>,
    \<open>f/t\b\<close>, \<open>\bft\b\<close>, \<open>40\s?hours?\<close>, \<open>permanent\<close>, \<open>regular\<close>,
    \<open>permanent full[- ]?time\<close>;
  \<^item> \<open>"Part-time"\<close>: \<open>part[- ]?time\<close>, \<open>part time\<close>, \<open>\bpt\b\<close>, \<open>p/t\b\<close>, \<open>\bpt\b\<close>,
    \<open>(\d{1,2})-(\d{1,2})\s?hours?\<close>, \<open>part-time permanent\<close>;
  \<^item> \<open>"Contract"\<close>: \<open>contract\<close>, \<open>fixed[- ]?term\<close>, \<open>temporary\<close>, \<open>temp\b\<close>, \<open>interim\<close>,
    \<open>non[- ]?permanent\<close>, \<open>\bltd\b\<close>, \<open>limited term\<close>;
  \<^item> \<open>"Freelance"\<close>: \<open>freelance\<close>, \<open>self[- ]?employed\<close>, \<open>independent contractor\<close>,
    \<open>1099\<close>, \<open>gig\<close>;
  \<^item> \<open>"Internship"\<close>: \<open>internship\<close>, \<open>intern\b\<close>, \<open>trainee\<close>, \<open>placement\<close>, \<open>student\<close>,
    \<open>co-op\<close>, \<open>apprentice\<close>;
  \<^item> \<open>"Temporary"\<close>: \<open>temp\b\<close>, \<open>temporary\<close>, \<open>seasonal\<close>;
  \<^item> \<open>"Volunteer"\<close>: \<open>volunteer\<close>, \<open>unpaid\<close>, \<open>pro bono\<close>.
  \<open>\d{1,2}\<close> is one digit and optionally a second.
\<close>

definition job_type_patterns :: "(pystr \<times> regex list) list" where
  "job_type_patterns =
    [(u ''Full-time'',
       [RSeqs [RStr ''full'', ROpt (RSet (CStr ''- '')), RStr ''time''],
        RStr ''full time'',
        RStr ''permanent'',
        RStr ''regular'',
        RSeqs [RStr ''ft'', RWordB],
        RSeqs [RStr ''f/t'', RWordB],
        RSeqs [RWordB, RStr ''ft'', RWordB],
        RSeqs [RStr ''40'', ROpt RSpace, RStr ''hour'', ROpt (RStr ''s'')],
        RStr ''permanent'',
        RStr ''regular'',
        RSeqs [RStr ''permanent full'', ROpt (RSet (CStr ''- '')), RStr ''time'']]),
     (u ''Part-time'',
       [RSeqs [RStr ''part'', ROpt (RSet (CStr ''- '')), RStr ''time''],
        RStr ''part time'',
        RSeqs [RWordB, RStr ''pt'', RWordB],
        RSeqs [RStr ''p/t'', RWordB],
        RSeqs [RWordB, RStr ''pt'', RWordB],
        RSeqs [RGroup 1 (RSeq RDigit (ROpt RDigit)), RStr ''-'',
               RGroup 2 (RSeq RDigit (ROpt RDigit)), ROpt RSpace,
               RStr ''hour'', ROpt (RStr ''s'')],
        RStr ''part-time permanent'']),
     (u ''Contract'',
       [RStr ''contract'',
        RSeqs [RStr ''fixed'', ROpt (RSet (CStr ''- '')), RStr ''term''],
        RStr ''temporary'',
        RSeqs [RStr ''temp'', RWordB],
        RStr ''interim'',
        RSeqs [RStr ''non'', ROpt (RSet (CStr ''- '')), RStr ''permanent''],
        RSeqs [RWordB, RStr ''ltd'', RWordB],
        RStr ''limited term'']),
     (u ''Freelance'',
       [RStr ''freelance'',
        RSeqs [RStr ''self'', ROpt (RSet (CStr ''- '')), RStr ''employed''],
        RStr ''independent contractor'',
        RStr ''1099'',
        RStr ''gig'']),
     (u ''Internship'',
       [RStr ''internship'',
        RSeqs [RStr ''intern'', RWordB],
        RStr ''trainee'',
        RStr ''placement'',
        RStr ''student'',
        RStr ''co-op'',
        RStr ''apprentice'']),
     (u ''Temporary'',
       [RSeqs [RStr ''temp'', RWordB],
        RStr ''temporary'',
        RStr ''seasonal'']),
     (u ''Volunteer'',
       [RStr ''volunteer'',
        RStr ''unpaid'',
        RStr ''pro bono''])]"

text \<open>
  The pattern of \<open>job_type_contexts\<close>:
  \<open>(employment|job|position|work)\s+type\s*:?\s*([^.,:;]+)\<close>.
\<close>

definition job_type_context_re :: regex where
  "job_type_context_re =
     RSeqs [RGroup 1 (RAlts [RStr ''employment'', RStr ''job'', RStr ''position'', RStr ''work'']),
            RPlus RSpace, RStr ''type'', RStar RSpace, ROpt (RStr '':''), RStar RSpace,
            RGroup 2 (RPlus (RNotSet (CStr ''.,:;'')))]"

text \<open>
  \<open>for pattern in patterns: if re.search(pattern, text, re.IGNORECASE): return ...\<close>:
  whether the inner loop reaches its \<open>return\<close>.
\<close>

fun any_pattern :: "pylib \<Rightarrow> regex list \<Rightarrow> pystr \<Rightarrow> bool" where
  "any_pattern L [] text = False"
| "any_pattern L (pattern # patterns) text =
     (if re_search L pattern True text \<noteq> None then True else any_pattern L patterns text)"

text \<open>
  \<open>for standard_type, patterns in job_type_patterns.items(): ...\<close>: the type that the
  nested loops return, or \<open>None\<close> when they run to their end.
\<close>

fun first_type :: "pylib \<Rightarrow> (pystr \<times> regex list) list \<Rightarrow> pystr \<Rightarrow> pystr option" where
  "first_type L [] text = None"
| "first_type L ((standard_type, patterns) # rest) text =
     (if any_pattern L patterns text then Some standard_type else first_type L rest text)"

text \<open>
  \<open>for _, context in job_type_contexts: ...\<close>; \<open>re.findall\<close> gives the empty string for
  a group that took no part in a match.
\<close>

definition context_of :: "rmatch \<Rightarrow> pystr" where
  "context_of m = (case group m 2 of Some c \<Rightarrow> c | None \<Rightarrow> [])"

fun first_type_in_contexts :: "pylib \<Rightarrow> rmatch list \<Rightarrow> pystr option" where
  "first_type_in_contexts L [] = None"
| "first_type_in_contexts L (m # ms) =
     (let context = context_of m in
      case first_type L job_type_patterns context of
        Some t \<Rightarrow> Some t
      | None \<Rightarrow> first_type_in_contexts L ms)"

text \<open>A parameter that is \<open>None\<close> or a \<open>str\<close>; \<open>if x:\<close> holds for a non-empty \<open>str\<close>.\<close>

definition given :: "pystr option \<Rightarrow> bool" where
  "given x = (case x of None \<Rightarrow> False | Some s \<Rightarrow> s \<noteq> [])"

definition extract_job_type :: "pylib \<Rightarrow> pystr option \<Rightarrow> pystr option \<Rightarrow> pystr" where
  "extract_job_type L job_type_text description_text =
     (if \<not> given job_type_text \<and> \<not> given description_text then []
      else
        case (if given job_type_text
              then first_type L job_type_patterns (str_lower L (the job_type_text))
              else None) of
          Some t \<Rightarrow> t
        | None \<Rightarrow>
            (if given description_text then
               (let description_text = str_lower L (the description_text);
                    job_type_contexts = re_finditer L job_type_context_re description_text in
                case first_type_in_contexts L job_type_contexts of
                  Some t \<Rightarrow> t
                | None \<Rightarrow>
                    (case first_type L job_type_patterns description_text of
                       Some t \<Rightarrow> t
                     | None \<Rightarrow> u ''Full-time''))
             else u ''Full-time''))"

text \<open>
  For the statement of the properties: some pattern of the \<open>i\<close>-th entry of
  \<open>job_type_patterns\<close> matches \<open>s\<close>; no pattern of any entry matches \<open>s\<close>; the
  \<open>i\<close>-th entry is the first one with a pattern that matches \<open>s\<close>.
\<close>

definition entry_matches :: "pylib \<Rightarrow> nat \<Rightarrow> pystr \<Rightarrow> bool" where
  "entry_matches L i s =
     (\<exists>pattern \<in> set (snd (job_type_patterns ! i)). re_search L pattern True s \<noteq> None)"

definition unmatched :: "pylib \<Rightarrow> pystr \<Rightarrow> bool" where
  "unmatched L s = (\<forall>i < length job_type_patterns. \<not> entry_matches L i s)"

definition first_entry :: "pylib \<Rightarrow> nat \<Rightarrow> pystr \<Rightarrow> bool" where
  "first_entry L i s =
     (i < length job_type_patterns \<and> entry_matches L i s \<and> (\<forall>j < i. \<not> entry_matches L j s))"

text \<open>The seven standardized types.\<close>

definition standard_types :: "pystr list" where
  "standard_types = [u ''Full-time'', u ''Part-time'', u ''Contract'', u ''Freelance'',
                     u ''Internship'', u ''Temporary'', u ''Volunteer'']"

section \<open>Salary (\<open>improved_ziprecruiter_scraper.py\<close>, \<open>extract_salary\<close>)\<close>

text \<open>
  A BeautifulSoup element is known to the program through the calls it makes on it:
  \<open>select_one\<close> and \<open>select\<close> with a CSS selector, \<open>.text\<close> (which is \<open>get_text()\<close>),
  \<open>.get('href')\<close>, \<open>.get('class')\<close>, \<open>.name\<close> and \<open>.parent\<close>. The calls into the
  library may raise; the source guards them with \<open>try\<close>. An element is always true
  in a condition (\<open>Tag.__bool__\<close>).
\<close>

datatype tag = Tag
  (tag_name: string)
  (tag_class: "string list")
  (tag_href: "pystr option")
  (tag_text: "exn + pystr")
  (tag_select_one: "string \<Rightarrow> exn + tag option")
  (tag_select: "string \<Rightarrow> exn + tag list")
  (tag_parent: "tag option")

definition salary_selectors :: "string list" where
  \<open>salary_selectors =
    [''.salary'', ''[class*="salary"]'', ''.compensation'', ''[class*="compensation"]'',
     ''.pay'', ''[class*="pay"]'', ''.wage'', ''[data-testid*="salary"]'',
     ''[class*="money"]'', ''[class*="amount"]'', ''.job_salary'']\<close>

text \<open>
  The first loop of \<open>extract_salary\<close>: the stripped text of the first selector whose
  element has non-empty text; an exception inside the \<open>try\<close> is logged and the loop goes
  on with the next selector.
\<close>

fun salary_from_selectors :: "tag \<Rightarrow> string list \<Rightarrow> pystr option" where
  "salary_from_selectors job_card [] = None"
| "salary_from_selectors job_card (selector # rest) =
     (case tag_select_one job_card selector of
        Inl e \<Rightarrow> salary_from_selectors job_card rest
      | Inr None \<Rightarrow> salary_from_selectors job_card rest
      | Inr (Some salary_elem) \<Rightarrow>
          (case tag_text salary_elem of
             Inl e \<Rightarrow> salary_from_selectors job_card rest
           | Inr t \<Rightarrow> if py_strip t \<noteq> [] then Some (py_strip t)
                      else salary_from_selectors job_card rest))"

text \<open>
  The amounts of the patterns: \<open>\<section>\s*\d+[,\d]*\<close> with \<open>\<section>\<close> the currency sign, and
  \<open>\d+[,\d]*\<close>.
\<close>

definition amount_re :: regex where
  "amount_re = RSeq (RPlus RDigit) (RStar (RSet [CChr 44, CDigit]))"

definition signed_amount_re :: "nat \<Rightarrow> regex" where
  "signed_amount_re sign = RSeqs [RChr sign, RStar RSpace, amount_re]"

text \<open>
  \<open>\<section>\s*\d+[,\d]*\s*(?:-\s*\<section>\s*\d+[,\d]*)?(?:\s*(?:per|a|/)\s*(?:year|annum|month|hour|yr|pa|p\.a\.|p/a))?\<close>
  for the sign \<open>\<section>\<close>: the pound sign (163), the dollar sign (36), the euro sign (8364).
\<close>

definition currency_salary_re :: "nat \<Rightarrow> regex" where
  "currency_salary_re sign =
     RSeqs [signed_amount_re sign, RStar RSpace,
            ROpt (RSeqs [RStr ''-'', RStar RSpace, signed_amount_re sign]),
            ROpt (RSeqs [RStar RSpace, RAlts [RStr ''per'', RStr ''a'', RStr ''/''], RStar RSpace,
                         RAlts [RStr ''year'', RStr ''annum'', RStr ''month'', RStr ''hour'',
                                RStr ''yr'', RStr ''pa'', RStr ''p.a.'', RStr ''p/a'']])]"

text \<open>
  The list \<open>patterns\<close>. The fourth is
  \<open>\d+[,\d]*\s*(?:-\s*\d+[,\d]*)?\s*(?:GBP|USD|EUR|pounds|euros|dollars)\<close>, the fifth
  \<open>(?:salary|pay|compensation)[:\s]*[\<section>]?\s*\d+[,\d]*\s*(?:-\s*[\<section>]?\s*\d+[,\d]*)?\<close>
  where \<open>[\<section>]\<close> is the class of the three currency signs.
\<close>

definition salary_patterns :: "regex list" where
  "salary_patterns =
    [currency_salary_re 163,
     currency_salary_re 36,
     currency_salary_re 8364,
     RSeqs [amount_re, RStar RSpace, ROpt (RSeqs [RStr ''-'', RStar RSpace, amount_re]),
            RStar RSpace,
            RAlts [RStr ''GBP'', RStr ''USD'', RStr ''EUR'', RStr ''pounds'', RStr ''euros'',
                   RStr ''dollars'']],
     RSeqs [RAlts [RStr ''salary'', RStr ''pay'', RStr ''compensation''],
            RStar (RSet [CChr 58, CSpace]),
            ROpt (RSet [CChr 163, CChr 36, CChr 8364]), RStar RSpace, amount_re, RStar RSpace,
            ROpt (RSeqs [RStr ''-'', RStar RSpace, ROpt (RSet [CChr 163, CChr 36, CChr 8364]),
                         RStar RSpace, amount_re])]]"

text \<open>
  The second loop: the stripped text of the first pattern that \<open>re.search\<close> finds in
  the text of the card, case ignored.
\<close>

fun salary_from_patterns :: "pylib \<Rightarrow> regex list \<Rightarrow> pystr \<Rightarrow> pystr option" where
  "salary_from_patterns L [] full_text = None"
| "salary_from_patterns L (pattern # rest) full_text =
     (case re_search L pattern True full_text of
        Some m \<Rightarrow> Some (py_strip (mt_group0 m))
      | None \<Rightarrow> salary_from_patterns L rest full_text)"

text \<open>
  \<open>salary_text\<close> where the source tests \<open>if not salary_text\<close> the second time: the
  selectors first; the patterns only when the selectors gave nothing; \<open>None\<close> also when
  \<open>job_card.get_text()\<close> raises, which the \<open>except\<close> clause logs.
\<close>

definition find_salary_text :: "pylib \<Rightarrow> tag \<Rightarrow> pystr option" where
  "find_salary_text L job_card =
     (case salary_from_selectors job_card salary_selectors of
        Some salary_text \<Rightarrow> Some salary_text
      | None \<Rightarrow>
          (case tag_text job_card of
             Inl e \<Rightarrow> None
           | Inr full_text \<Rightarrow> salary_from_patterns L salary_patterns full_text))"

text \<open>
  \<open>salary_text.replace('\n', ' ').replace('\t', ' ')\<close>, then
  \<open>re.sub(r'\s+', ' ', salary_text).strip()\<close>.
\<close>

definition clean_salary_text :: "pylib \<Rightarrow> pystr \<Rightarrow> pystr" where
  "clean_salary_text L salary_text =
     py_strip (re_sub L (RPlus RSpace) [32] (replace_chr 9 32 (replace_chr 10 32 salary_text)))"

text \<open>\<open>[\<section>]|GBP|USD|EUR|pounds|euros|dollars\<close>, searched with case ignored.\<close>

definition currency_re :: regex where
  "currency_re =
     RAlts [RSet [CChr 163, CChr 36, CChr 8364], RStr ''GBP'', RStr ''USD'', RStr ''EUR'',
            RStr ''pounds'', RStr ''euros'', RStr ''dollars'']"

definition salary_currency :: "pylib \<Rightarrow> pystr \<Rightarrow> 'f pyval" where
  "salary_currency L salary_text =
     (case re_search L currency_re True salary_text of
        None \<Rightarrow> PNone
      | Some currency_match \<Rightarrow>
          (let currency = str_upper L (mt_group0 currency_match) in
           if currency = [163] \<or> currency = u ''POUNDS'' \<or> currency = u ''GBP''
           then PStr (u ''GBP'')
           else if currency = [36] \<or> currency = u ''DOLLARS'' \<or> currency = u ''USD''
           then PStr (u ''USD'')
           else if currency = [8364] \<or> currency = u ''EUROS'' \<or> currency = u ''EUR''
           then PStr (u ''EUR'')
           else PNone))"

text \<open>
  \<open>per\s+(year|annum|month|hour|day|week)|/(year|annum|month|hour|day|week)|p\.a\.|pa\b|yearly|monthly|hourly|annual\<close>.
\<close>

definition period_re :: regex where
  "period_re =
     RAlts [RSeqs [RStr ''per'', RPlus RSpace,
                   RGroup 1 (RAlts [RStr ''year'', RStr ''annum'', RStr ''month'', RStr ''hour'',
                                    RStr ''day'', RStr ''week''])],
            RSeqs [RStr ''/'',
                   RGroup 2 (RAlts [RStr ''year'', RStr ''annum'', RStr ''month'', RStr ''hour'',
                                    RStr ''day'', RStr ''week''])],
            RStr ''p.a.'', RSeqs [RStr ''pa'', RWordB], RStr ''yearly'', RStr ''monthly'',
            RStr ''hourly'', RStr ''annual'']"

definition salary_period :: "pylib \<Rightarrow> pystr \<Rightarrow> 'f pyval" where
  "salary_period L salary_text =
     (case re_search L period_re True salary_text of
        None \<Rightarrow> PNone
      | Some period_match \<Rightarrow>
          (let period = str_lower L (mt_group0 period_match) in
           if str_in (u ''year'') period \<or> str_in (u ''annum'') period \<or> str_in (u ''pa'') period
              \<or> str_in (u ''p.a'') period \<or> str_in (u ''annual'') period
           then PStr (u ''yearly'')
           else if str_in (u ''month'') period then PStr (u ''monthly'')
           else if str_in (u ''hour'') period then PStr (u ''hourly'')
           else if str_in (u ''day'') period then PStr (u ''daily'')
           else if str_in (u ''week'') period then PStr (u ''weekly'')
           else PNone))"

text \<open>\<open>\d+[,\d]*(?:\.\d+)?\<close>, the pattern of \<open>numbers\<close>.\<close>

definition number_re :: regex where
  "number_re = RSeq amount_re (ROpt (RSeq (RStr ''.'') (RPlus RDigit)))"

definition salary_numbers :: "pylib \<Rightarrow> pystr \<Rightarrow> pystr list" where
  "salary_numbers L salary_text = map mt_group0 (re_finditer L number_re salary_text)"

text \<open>
  \<open>[float(n.replace(',', '')) for n in numbers]\<close>. \<open>F\<close> is \<open>float\<close> on a \<open>str\<close>; it
  raises \<open>ValueError\<close> on a string that is no number, and the first raise ends the
  comprehension. The floats live in a linearly ordered type \<open>'f\<close>: the strings converted
  are runs of digits with at most one point, none of which denotes a NaN.
\<close>

fun cleaned_numbers :: "(pystr \<Rightarrow> exn + 'f) \<Rightarrow> pystr list \<Rightarrow> exn + 'f list" where
  "cleaned_numbers F [] = Inr []"
| "cleaned_numbers F (n # ns) =
     (case F (filter (\<lambda>c. c \<noteq> 44) n) of
        Inl e \<Rightarrow> Inl e
      | Inr x \<Rightarrow> (case cleaned_numbers F ns of Inl e \<Rightarrow> Inl e | Inr xs \<Rightarrow> Inr (x # xs)))"

text \<open>
  \<open>min\<close> and \<open>max\<close> of a non-empty list: the first element, replaced by each later
  element that is smaller (greater).
\<close>

definition py_min :: "('f::linorder) list \<Rightarrow> 'f" where
  "py_min xs = foldl (\<lambda>m x. if x < m then x else m) (hd xs) (tl xs)"

definition py_max :: "('f::linorder) list \<Rightarrow> 'f" where
  "py_max xs = foldl (\<lambda>m x. if m < x then x else m) (hd xs) (tl xs)"

text \<open>
  The \<open>try\<close> block that builds \<open>salary_data\<close> from the cleaned text. The only call in it
  that can raise on these arguments is \<open>float\<close>; the \<open>except\<close> clause then returns the
  dictionary with the key \<open>"text"\<close> alone, and the text is already the cleaned one.
\<close>

definition salary_data ::
  "pylib \<Rightarrow> (pystr \<Rightarrow> exn + 'f) \<Rightarrow> pystr \<Rightarrow> ('f::{linorder,zero}) pydict" where
  "salary_data L F salary_text =
     (let numbers = salary_numbers L salary_text in
      case (if numbers \<noteq> [] then cleaned_numbers F numbers else Inr []) of
        Inl e \<Rightarrow> [(''text'', PStr salary_text)]
      | Inr xs \<Rightarrow>
          [(''text'', PStr salary_text),
           (''currency'', salary_currency L salary_text),
           (''min'', if xs = [] then PNone else if 2 \<le> length xs then PFloat (py_min xs)
                     else PFloat (xs ! 0)),
           (''max'', if 2 \<le> length xs then PFloat (py_max xs) else PNone),
           (''period'', salary_period L salary_text),
           (''is_range'', PBool (2 \<le> length xs))])"

text \<open>\<open>extract_salary(job_card)\<close>: \<open>None\<close>, or the dictionary.\<close>

definition extract_salary ::
  "pylib \<Rightarrow> (pystr \<Rightarrow> exn + 'f) \<Rightarrow> tag \<Rightarrow> ('f::{linorder,zero}) pydict option" where
  "extract_salary L F job_card =
     (case find_salary_text L job_card of
        None \<Rightarrow> None
      | Some salary_text \<Rightarrow>
          if salary_text = [] then None
          else Some (salary_data L F (clean_salary_text L salary_text)))"

text \<open>
  For the statement of the properties: the text that one selector yields, that is, the
  stripped text of the element it selects when that text is not empty.
\<close>

definition selector_text :: "tag \<Rightarrow> string \<Rightarrow> pystr option" where
  "selector_text job_card selector =
     (case tag_select_one job_card selector of
        Inr (Some elem) \<Rightarrow>
          (case tag_text elem of
             Inr t \<Rightarrow> if py_strip t \<noteq> [] then Some (py_strip t) else None
           | Inl e \<Rightarrow> None)
      | _ \<Rightarrow> None)"

section \<open>Inputs for running the model\<close>

text \<open>
  An element with the given text and nothing below it, and a card on which each listed
  selector selects the listed element, every other selector selects nothing, and whose
  text is \<open>full_text\<close>.
\<close>

definition example_elem :: "pystr option \<Rightarrow> pystr \<Rightarrow> tag" where
  "example_elem href t =
     Tag ''span'' [] href (Inr t) (\<lambda>selector. Inr None) (\<lambda>selector. Inr []) None"

definition example_card :: "(string \<times> tag) list \<Rightarrow> pystr \<Rightarrow> tag" where
  "example_card children full_text =
     Tag ''div'' [''job_content''] None (Inr full_text)
         (\<lambda>selector. Inr (map_of children selector))
         (\<lambda>selector. Inr (case map_of children selector of None \<Rightarrow> [] | Some e \<Rightarrow> [e]))
         None"

text \<open>
  \<open>float\<close> on a decimal numeral \<open>ddd\<close> or \<open>ddd.ddd\<close>, as the exact rational value
  (Python rounds it to the nearest double, which changes no integer below \<open>2^53\<close>);
  \<open>ValueError\<close> on any other string.
\<close>

definition digits_value :: "pystr \<Rightarrow> nat" where
  "digits_value ds = foldl (\<lambda>n d. 10 * n + (d - 48)) 0 ds"

definition example_float :: "pystr \<Rightarrow> exn + rat" where
  "example_float s =
     (let whole = takeWhile is_digit s; rest = dropWhile is_digit s in
      if whole = [] then Inl (Exn ''ValueError'')
      else if rest = [] then Inr (of_nat (digits_value whole))
      else if hd rest = 46 \<and> tl rest \<noteq> [] \<and> list_all is_digit (tl rest)
      then Inr (of_nat (digits_value whole)
                + of_nat (digits_value (tl rest)) / of_nat (10 ^ length (tl rest)))
      else Inl (Exn ''ValueError''))"

text \<open>
  Three cards: one whose \<open>.pay\<close> element holds a salary range in pounds, one without
  salary elements whose text names a range in dollars, one that names no salary; and a
  card whose \<open>.salary\<close> element holds a single amount.
\<close>

definition salary_card_a :: tag where
  "salary_card_a =
     example_card
       [(''.pay'', example_elem None ([32, 163] @ u ''30,000 - '' @ [163] @ u ''40,000 per year ''))]
       (u ''Dev'')"

definition salary_card_b :: tag where
  "salary_card_b = example_card [] (u ''Pay: $50,000 - $60,000 a year.'')"

definition salary_card_c :: tag where
  "salary_card_c = example_card [] (u ''No pay info'')"

definition salary_card_d :: tag where
  "salary_card_d =
     example_card [(''.salary'', example_elem None ([163] @ u ''25 per hour''))] (u ''Dev'')"

section \<open>Job listings (\<open>improved_ziprecruiter_scraper.py\<close>, \<open>extract_job_listings\<close>)\<close>

text \<open>
  What \<open>extract_job_listings\<close> takes from outside the source file: the attribute
  \<open>self.base_urls\<close>, a dictionary from country codes to URLs that is set outside the code
  shown and is a parameter here; \<open>hashlib.md5(s.encode()).hexdigest()\<close> on a string that
  UTF-8 can encode; \<open>datetime.now().strftime(...)\<close>, which depends on the moment and is
  given for each card by its index; and \<open>BeautifulSoup(html_content, 'html.parser')\<close>.
\<close>

record scraper =
  base_urls :: "pystr \<Rightarrow> pystr option"
  md5_hexdigest :: "pystr \<Rightarrow> pystr"
  datetime_now :: "nat \<Rightarrow> pystr"
  BeautifulSoup :: "pystr \<Rightarrow> exn + tag"

definition job_card_selectors :: "string list" where
  \<open>job_card_selectors =
    [''.job_content'', ''.job_result'', ''.jobList-item'', ''.job-card'',
     ''article.job_item'', ''div[data-job-id]'', ''[class*="job_"]'',
     ''[data-testid="job-card"]'', ''article'', ''.card'']\<close>

text \<open>
  The first loop: each selector is tried on a fresh parse of the page; an exception is
  logged and the next selector tried; the first non-empty selection ends the loop.
\<close>

fun cards_by_selectors :: "scraper \<Rightarrow> pystr \<Rightarrow> string list \<Rightarrow> tag list" where
  "cards_by_selectors S html_content [] = []"
| "cards_by_selectors S html_content (selector # rest) =
     (case BeautifulSoup S html_content of
        Inl e \<Rightarrow> cards_by_selectors S html_content rest
      | Inr soup \<Rightarrow>
          (case tag_select soup selector of
             Inl e \<Rightarrow> cards_by_selectors S html_content rest
           | Inr cards \<Rightarrow> if cards \<noteq> [] then cards
                          else cards_by_selectors S html_content rest))"

text \<open>
  \<open>for _ in range(3)\<close>, the range being the list \<open>[0, 1, 2]\<close>: up to three ancestors
  are looked at; the first with a class, or named \<open>article\<close> or \<open>div\<close>, is taken as a
  card.
\<close>

fun climb :: "nat list \<Rightarrow> tag option \<Rightarrow> tag option" where
  "climb [] parent = None"
| "climb (i # levels) None = None"
| "climb (i # levels) (Some parent) =
     (if tag_class parent \<noteq> [] \<or> tag_name parent = ''article'' \<or> tag_name parent = ''div''
      then Some parent
      else climb levels (tag_parent parent))"

definition potential_titles_selector :: string where
  \<open>potential_titles_selector = ''h2, h3, a[href*="job"], a[href*="career"]''\<close>

text \<open>
  The cards: those of the first loop; when it finds none, the ancestors of the first ten
  potential titles. The second parse and its \<open>select\<close> are outside any \<open>try\<close>.
\<close>

definition find_job_cards :: "scraper \<Rightarrow> pystr \<Rightarrow> exn + tag list" where
  "find_job_cards S html_content =
     (let job_cards = cards_by_selectors S html_content job_card_selectors in
      if job_cards \<noteq> [] then Inr job_cards
      else
        case BeautifulSoup S html_content of
          Inl e \<Rightarrow> Inl e
        | Inr soup \<Rightarrow>
            (case tag_select soup potential_titles_selector of
               Inl e \<Rightarrow> Inl e
             | Inr potential_titles \<Rightarrow>
                 Inr (List.map_filter (\<lambda>title_elem. climb [0, 1, 2] (tag_parent title_elem))
                        (take 10 potential_titles))))"

definition first_card_selector :: string where
  \<open>first_card_selector = ''h2, h3, a[href*="job"]''\<close>

text \<open>
  The debug lines on the first card, before the loop and outside its \<open>try\<close>: the
  f-strings are evaluated whatever the log level, so \<open>select_one\<close> and \<open>.text\<close> are called.
\<close>

definition log_first_card :: "tag list \<Rightarrow> exn + unit" where
  "log_first_card job_cards =
     (case job_cards of
        [] \<Rightarrow> Inr ()
      | first_card # _ \<Rightarrow>
          (case tag_select_one first_card first_card_selector of
             Inl e \<Rightarrow> Inl e
           | Inr None \<Rightarrow> Inr ()
           | Inr (Some title_elem) \<Rightarrow>
               (case tag_text title_elem of Inl e \<Rightarrow> Inl e | Inr t \<Rightarrow> Inr ())))"

text \<open>
  The loops that look for the text of a field (title, company, location, description, job
  type, date): the stripped text of the first selector whose element has non-empty text.
  They have no \<open>try\<close> of their own: an exception leaves the loop.
\<close>

fun first_text :: "tag \<Rightarrow> string list \<Rightarrow> exn + pystr option" where
  "first_text job_card [] = Inr None"
| "first_text job_card (selector # rest) =
     (case tag_select_one job_card selector of
        Inl e \<Rightarrow> Inl e
      | Inr None \<Rightarrow> first_text job_card rest
      | Inr (Some elem) \<Rightarrow>
          (case tag_text elem of
             Inl e \<Rightarrow> Inl e
           | Inr t \<Rightarrow> if py_strip t \<noteq> [] then Inr (Some (py_strip t))
                      else first_text job_card rest))"

text \<open>The loop for the URL: the first selector whose element has a non-empty \<open>href\<close>.\<close>

fun first_href :: "tag \<Rightarrow> string list \<Rightarrow> exn + pystr option" where
  "first_href job_card [] = Inr None"
| "first_href job_card (selector # rest) =
     (case tag_select_one job_card selector of
        Inl e \<Rightarrow> Inl e
      | Inr None \<Rightarrow> first_href job_card rest
      | Inr (Some url_elem) \<Rightarrow>
          (case tag_href url_elem of
             None \<Rightarrow> first_href job_card rest
           | Some href \<Rightarrow> if href \<noteq> [] then Inr (Some href) else first_href job_card rest))"

definition sponsored_selector :: string where
  \<open>sponsored_selector = ''[class*="sponsor"], [class*="promoted"]''\<close>

definition title_selectors :: "string list" where
  \<open>title_selectors = [''h2'', ''h3'', ''a[href*="job"] strong'', ''a[href*="job"]'',
                      ''.job-title'', ''.title'']\<close>

definition url_selectors :: "string list" where
  \<open>url_selectors = [''a[href*="job"]'', ''h2 a'', ''h3 a'', ''.job-title a'', ''.title a'']\<close>

definition company_selectors :: "string list" where
  \<open>company_selectors = [''.company_name'', ''.company'', ''[class*="company"]'',
                        ''.hiring-company'']\<close>

definition location_selectors :: "string list" where
  \<open>location_selectors = [''.location'', ''[class*="location"]'', ''[class*="address"]'',
                         ''.job-location'']\<close>

definition description_selectors :: "string list" where
  \<open>description_selectors = [''.job_snippet'', ''.description'', ''.snippet'',
                            ''[class*="description"]'']\<close>

definition job_type_selectors :: "string list" where
  \<open>job_type_selectors = [''.job_type'', ''.employment_type'', ''[class*="type"]'']\<close>

definition date_selectors :: "string list" where
  \<open>date_selectors = [''.date'', ''[class*="posted"]'', ''.job-age'', ''.posted-date'']\<close>

text \<open>\<open>self.base_urls.get(country_code, 'https://www.ziprecruiter.com')\<close>.\<close>

definition base_url :: "scraper \<Rightarrow> pystr \<Rightarrow> pystr" where
  "base_url S country_code =
     (case base_urls S country_code of
        Some b \<Rightarrow> b
      | None \<Rightarrow> u ''https://www.ziprecruiter.com'')"

text \<open>"Ensure URL is absolute".\<close>

definition absolute_url :: "scraper \<Rightarrow> pystr \<Rightarrow> pystr \<Rightarrow> pystr" where
  "absolute_url S country_code job_url =
     (if \<not> startswith job_url (u ''http'') then
        (if startswith job_url (u ''/'') then base_url S country_code @ job_url
         else base_url S country_code @ u ''/'' @ job_url)
      else job_url)"

text \<open>\<open>job[key] = text\<close> when the loop of a field found a text.\<close>

definition set_found :: "string \<Rightarrow> pystr option \<Rightarrow> 'f pydict \<Rightarrow> 'f pydict" where
  "set_found key found job = (case found of None \<Rightarrow> job | Some t \<Rightarrow> dict_set key (PStr t) job)"

text \<open>
  The body of the \<open>try\<close> for one card, in three parts. First the tests that end with
  \<open>continue\<close>: a sponsored or promoted card, no title, no URL; the result is the title
  and the \<open>href\<close>.
\<close>

definition card_title_href :: "tag \<Rightarrow> exn + (pystr \<times> pystr) option" where
  "card_title_href job_card =
     (case tag_select_one job_card sponsored_selector of
        Inl e \<Rightarrow> Inl e
      | Inr (Some sponsored) \<Rightarrow> Inr None
      | Inr None \<Rightarrow>
          (case first_text job_card title_selectors of
             Inl e \<Rightarrow> Inl e
           | Inr None \<Rightarrow> Inr None
           | Inr (Some job_title) \<Rightarrow>
               (case first_href job_card url_selectors of
                  Inl e \<Rightarrow> Inl e
                | Inr None \<Rightarrow> Inr None
                | Inr (Some href) \<Rightarrow> Inr (Some (job_title, href)))))"

text \<open>The dictionary \<open>job\<close> "with basic information".\<close>

definition basic_job :: "scraper \<Rightarrow> pystr \<Rightarrow> nat \<Rightarrow> pystr \<Rightarrow> pystr \<Rightarrow> 'f pydict" where
  "basic_job S country_code idx job_title job_url =
     [(''id'', PStr (md5_hexdigest S job_url)),
      (''title'', PStr job_title),
      (''url'', PStr job_url),
      (''source'', PStr (u ''ZipRecruiter'')),
      (''country'', PStr country_code),
      (''timestamp'', PStr (datetime_now S idx))]"

text \<open>
  Then the fields: company, location, description, salary, job type and date, in this
  order. Only \<open>extract_salary\<close> has handlers of its own.
\<close>

definition fill_fields ::
  "pylib \<Rightarrow> (pystr \<Rightarrow> exn + 'f) \<Rightarrow> tag \<Rightarrow> 'f pydict
     \<Rightarrow> exn + ('f::{linorder,zero}) pydict" where
  "fill_fields L F job_card job =
     (case first_text job_card company_selectors of
        Inl e \<Rightarrow> Inl e
      | Inr company \<Rightarrow>
     (case first_text job_card location_selectors of
        Inl e \<Rightarrow> Inl e
      | Inr location \<Rightarrow>
     (case first_text job_card description_selectors of
        Inl e \<Rightarrow> Inl e
      | Inr description \<Rightarrow>
     (case first_text job_card job_type_selectors of
        Inl e \<Rightarrow> Inl e
      | Inr job_type \<Rightarrow>
     (case first_text job_card date_selectors of
        Inl e \<Rightarrow> Inl e
      | Inr date_posted \<Rightarrow>
          Inr (set_found ''date_posted'' date_posted
              (set_found ''job_type'' job_type
              (dict_set ''salary''
                 (case extract_salary L F job_card of None \<Rightarrow> PNone | Some d \<Rightarrow> PDict d)
              (set_found ''description'' description
              (set_found ''location'' location
              (set_found ''company'' company job)))))))))))"

text \<open>
  The whole body: \<open>Inl\<close> when it raises, \<open>Inr None\<close> when it ends with \<open>continue\<close>,
  \<open>Inr (Some job)\<close> when it reaches \<open>jobs.append(job)\<close>. \<open>job_url.encode()\<close> raises
  \<open>UnicodeEncodeError\<close> on a string that UTF-8 cannot encode.
\<close>

definition process_card ::
  "pylib \<Rightarrow> (pystr \<Rightarrow> exn + 'f) \<Rightarrow> scraper \<Rightarrow> pystr \<Rightarrow> nat \<Rightarrow> tag
     \<Rightarrow> exn + ('f::{linorder,zero}) pydict option" where
  "process_card L F S country_code idx job_card =
     (case card_title_href job_card of
        Inl e \<Rightarrow> Inl e
      | Inr None \<Rightarrow> Inr None
      | Inr (Some (job_title, href)) \<Rightarrow>
          (let job_url = absolute_url S country_code href in
           if \<not> utf8_encodable job_url then Inl (Exn ''UnicodeEncodeError'')
           else
             case fill_fields L F job_card (basic_job S country_code idx job_title job_url) of
               Inl e \<Rightarrow> Inl e
             | Inr job \<Rightarrow> Inr (Some job)))"

text \<open>
  \<open>for idx, job_card in enumerate(job_cards): try: ... except Exception: ... continue\<close>.
\<close>

fun process_cards ::
  "pylib \<Rightarrow> (pystr \<Rightarrow> exn + 'f) \<Rightarrow> scraper \<Rightarrow> pystr \<Rightarrow> nat \<Rightarrow> tag list
     \<Rightarrow> ('f::{linorder,zero}) pydict list" where
  "process_cards L F S country_code idx [] = []"
| "process_cards L F S country_code idx (job_card # rest) =
     (case process_card L F S country_code idx job_card of
        Inl e \<Rightarrow> process_cards L F S country_code (Suc idx) rest
      | Inr None \<Rightarrow> process_cards L F S country_code (Suc idx) rest
      | Inr (Some job) \<Rightarrow> job # process_cards L F S country_code (Suc idx) rest)"

definition extract_job_listings ::
  "pylib \<Rightarrow> (pystr \<Rightarrow> exn + 'f) \<Rightarrow> scraper \<Rightarrow> pystr \<Rightarrow> pystr
     \<Rightarrow> exn + ('f::{linorder,zero}) pydict list" where
  "extract_job_listings L F S html_content country_code =
     (case find_job_cards S html_content of
        Inl e \<Rightarrow> Inl e
      | Inr job_cards \<Rightarrow>
          (case log_first_card job_cards of
             Inl e \<Rightarrow> Inl e
           | Inr done \<Rightarrow> Inr (process_cards L F S country_code 0 job_cards)))"

text \<open>
  For the statement of the properties: the selector lists of the five fields that are
  looked up without a handler of their own, in the order of the source (the salary comes
  between the third and the fourth).
\<close>

definition unguarded_fields :: "string list list" where
  "unguarded_fields = [company_selectors, location_selectors, description_selectors,
                       job_type_selectors, date_selectors]"

text \<open>
  Cards for running \<open>extract_job_listings\<close>: a card that raises on the listed selectors
  and whose \<open>get_text()\<close> gives the listed result; the elements of a listing with a title,
  a link and a company; a page whose \<open>.job_content\<close> elements are the given cards; and a
  scraper with one base URL, a fixed clock and a stand-in for the MD5 digest (the model
  takes the digest as a parameter, so any function serves in a run).
\<close>

definition raising_card :: "string list \<Rightarrow> (string \<times> tag) list \<Rightarrow> exn + pystr \<Rightarrow> tag" where
  "raising_card raising children full_text =
     Tag ''div'' [''job_content''] None full_text
         (\<lambda>selector. if selector \<in> set raising then Inl (Exn ''selector failed'')
                      else Inr (map_of children selector))
         (\<lambda>selector. Inr [])
         None"

definition listing_children :: "pystr \<Rightarrow> pystr \<Rightarrow> (string \<times> tag) list" where
  \<open>listing_children title href =
     [(''h2'', example_elem None title),
      (''a[href*="job"]'', example_elem (Some href) title),
      (''.company'', example_elem None (u ''Acme Ltd''))]\<close>

definition card_one :: tag where
  "card_one = example_card (listing_children (u ''Engineer'') (u ''/jobs/1'')) (u ''Engineer'')"

definition card_two :: tag where
  "card_two =
     example_card (listing_children (u ''Analyst'') (u ''https://example.org/job/2''))
       (u ''Analyst'')"

definition card_company_raises :: tag where
  "card_company_raises =
     raising_card [''.company_name''] (listing_children (u ''Tester'') (u ''/jobs/3''))
       (Inr (u ''Tester''))"

definition card_salary_raises :: tag where
  "card_salary_raises =
     raising_card salary_selectors (listing_children (u ''Writer'') (u ''jobs/4''))
       (Inl (Exn ''get_text failed''))"

definition card_sponsored :: tag where
  "card_sponsored =
     example_card ((sponsored_selector, example_elem None (u ''Ad''))
                   # listing_children (u ''Promoted'') (u ''/jobs/5'')) (u ''Promoted'')"

definition example_page :: "tag list \<Rightarrow> tag" where
  "example_page job_cards =
     Tag ''[document]'' [] None (Inr []) (\<lambda>selector. Inr None)
         (\<lambda>selector. Inr (if selector = ''.job_content'' then job_cards else []))
         None"

definition example_scraper :: "tag \<Rightarrow> scraper" where
  "example_scraper page =
     \<lparr>base_urls = (\<lambda>country_code. if country_code = u ''uk''
                                   then Some (u ''https://www.ziprecruiter.co.uk'') else None),
      md5_hexdigest = (\<lambda>s. u ''digest of '' @ s),
      datetime_now = (\<lambda>idx. u ''2024-01-01 00:00:00''),
      BeautifulSoup = (\<lambda>html_content. Inr page)\<rparr>"

text \<open>The record that the listing elements above give for country \<open>uk\<close>.\<close>

definition example_job :: "pystr \<Rightarrow> pystr \<Rightarrow> rat pydict" where
  "example_job title url =
     [(''id'', PStr (u ''digest of '' @ url)),
      (''title'', PStr title),
      (''url'', PStr url),
      (''source'', PStr (u ''ZipRecruiter'')),
      (''country'', PStr (u ''uk'')),
      (''timestamp'', PStr (u ''2024-01-01 00:00:00'')),
      (''company'', PStr (u ''Acme Ltd'')),
      (''salary'', PNone)]"

definition example_cards :: "tag list" where
  "example_cards = [card_one, card_company_raises, card_two, card_sponsored, card_salary_raises]"

section \<open>Description sections (\<open>run_improved_ziprecruiter.py\<close>, \<open>structure_description\<close>)\<close>

text \<open>
  The dictionary \<open>sections\<close>: the section keys with their keywords, in insertion order.
  The dictionaries of this function have literal keys and \<open>str\<close> values.
\<close>

type_synonym sections = "(string \<times> pystr) list"

definition section_keywords :: "(string \<times> pystr list) list" where
  "section_keywords =
    [(''about_company'',
       map u [''about us'', ''about the company'', ''who we are'', ''company overview'',
              ''our company'', ''company description'']),
     (''job_overview'',
       map u [''job overview'', ''position overview'', ''role overview'', ''about the job'',
              ''about the role'', ''job description'', ''summary'', ''overview'']),
     (''responsibilities'',
       map u [''responsibilities'', ''duties'', ''what you'll do'', ''your responsibilities'',
              ''key responsibilities'', ''role responsibilities'', ''job duties'',
              ''main duties'', ''essential duties'', ''the role'', ''day to day'',
              ''day-to-day'']),
     (''requirements'',
       map u [''requirements'', ''qualifications'', ''what you need'', ''skills'',
              ''required skills'', ''must have'', ''experience required'',
              ''required experience'', ''essential skills'', ''you will need'',
              ''you'll need'', ''we are looking for'', ''ideal candidate'',
              ''candidate profile'', ''who you are'']),
     (''nice_to_have'',
       map u [''nice to have'', ''preferred'', ''bonus points'', ''plus'', ''desirable'',
              ''additional skills'', ''preferred qualifications'', ''preferred skills'',
              ''good to have'']),
     (''benefits'',
       map u [''benefits'', ''perks'', ''what we offer'', ''compensation'', ''package'',
              ''salary'', ''rewards'', ''we provide'', ''we offer'', ''what's in it for you'',
              ''what's on offer'', ''what you'll get'']),
     (''application_process'',
       map u [''application process'', ''how to apply'', ''next steps'', ''apply'',
              ''apply now'', ''application procedure''])]"

text \<open>
  \<open>for section_key, keywords in sections.items(): if any(keyword in text ...): ... break\<close>:
  the first section with a keyword that occurs in the text.
\<close>

fun match_section :: "(string \<times> pystr list) list \<Rightarrow> pystr \<Rightarrow> string option" where
  "match_section [] s = None"
| "match_section ((section_key, keywords) # rest) s =
     (if \<exists>keyword \<in> set keywords. str_in keyword s then Some section_key
      else match_section rest s)"

text \<open>
  What the function sees of the parsed HTML: the list \<open>potential_headers\<close> of
  \<open>soup.find_all(['h1', ..., 'strong', 'b'])\<close>, and for each header its \<open>get_text()\<close> and
  the chain of its \<open>next_sibling\<close>s. A sibling ends the \<open>while\<close> loop when it is false (an
  empty string) or equal to one of the headers; otherwise it contributes its stripped
  text when that is not empty. Parsing, \<open>find_all\<close> and \<open>get_text\<close> are library calls that
  may raise.
\<close>

type_synonym sibling = "bool \<times> (exn + pystr)"

type_synonym header = "(exn + pystr) \<times> sibling list"

fun collect_content :: "sibling list \<Rightarrow> exn + pystr list" where
  "collect_content [] = Inr []"
| "collect_content ((ends_loop, element_text) # rest) =
     (if ends_loop then Inr []
      else
        case element_text of
          Inl e \<Rightarrow> Inl e
        | Inr t \<Rightarrow>
            (case collect_content rest of
               Inl e \<Rightarrow> Inl e
             | Inr content \<Rightarrow> Inr (if py_strip t \<noteq> [] then py_strip t # content else content)))"

text \<open>\<open>for header in potential_headers: ...\<close>, building \<open>section_content\<close>.\<close>

fun html_sections :: "pylib \<Rightarrow> header list \<Rightarrow> sections \<Rightarrow> exn + sections" where
  "html_sections L [] section_content = Inr section_content"
| "html_sections L ((header_get_text, siblings) # rest) section_content =
     (case header_get_text of
        Inl e \<Rightarrow> Inl e
      | Inr t \<Rightarrow>
          (let header_text = str_lower L (py_strip t) in
           if header_text = [] \<or> 50 < length header_text
           then html_sections L rest section_content
           else
             case match_section section_keywords header_text of
               None \<Rightarrow> html_sections L rest section_content
             | Some matched_section \<Rightarrow>
                 (case collect_content siblings of
                    Inl e \<Rightarrow> Inl e
                  | Inr content \<Rightarrow>
                      html_sections L rest
                        (if content \<noteq> []
                         then AList.update matched_section (join [10] content) section_content
                         else section_content))))"

text \<open>
  The first stage, \<open>if description_html:\<close>. \<open>H\<close> is the parse of the HTML with the list
  of its potential headers; \<open>description_html\<close> is \<open>None\<close> by default.
\<close>

definition html_stage ::
  "pylib \<Rightarrow> ('f::{linorder,zero} pyval \<Rightarrow> exn + header list) \<Rightarrow> 'f pyval \<Rightarrow> exn + sections"
  where
  "html_stage L H description_html =
     (if truthy description_html then
        (case H description_html of
           Inl e \<Rightarrow> Inl e
         | Inr potential_headers \<Rightarrow> html_sections L potential_headers [])
      else Inr [])"

text \<open>
  The second stage, the loop over the lines of the text. Its state is
  \<open>current_section\<close>, \<open>section_content\<close> and \<open>section_lines\<close>.
\<close>

fun text_lines ::
  "pylib \<Rightarrow> pystr list \<Rightarrow> string option \<Rightarrow> sections \<Rightarrow> pystr list \<Rightarrow> sections" where
  "text_lines L [] current_section section_content section_lines =
     (case current_section of
        Some c \<Rightarrow> if section_lines \<noteq> []
                  then AList.update c (join [10] section_lines) section_content
                  else section_content
      | None \<Rightarrow> section_content)"
| "text_lines L (raw_line # rest) current_section section_content section_lines =
     (let line = py_strip raw_line in
      if line = [] then text_lines L rest current_section section_content section_lines
      else
        case (if length line < 50 then match_section section_keywords (str_lower L line)
              else None) of
          Some matched_section \<Rightarrow>
            text_lines L rest (Some matched_section)
              (case current_section of
                 Some c \<Rightarrow> if section_lines \<noteq> []
                           then AList.update c (join [10] section_lines) section_content
                           else section_content
               | None \<Rightarrow> section_content)
              []
        | None \<Rightarrow>
            (case current_section of
               Some c \<Rightarrow> text_lines L rest current_section section_content (section_lines @ [line])
             | None \<Rightarrow> text_lines L rest current_section section_content section_lines))"

definition text_stage :: "pylib \<Rightarrow> pystr \<Rightarrow> sections" where
  "text_stage L description_text = text_lines L (split_chr 10 description_text) None [] []"

text \<open>
  The third stage, \<open>if len(structured) < 2\<close>. The bullet sign is \<open>U+2022\<close> (8226); the
  pattern of \<open>re.split\<close> is \<open>\n\s*\<bullet>|\n\s*-|\n\s*\*|\n\s*\d+\.\<close>.
\<close>

definition bullet_re :: regex where
  "bullet_re =
     RAlts [RSeqs [RChr 10, RStar RSpace, RChr 8226],
            RSeqs [RChr 10, RStar RSpace, RStr ''-''],
            RSeqs [RChr 10, RStar RSpace, RStr ''*''],
            RSeqs [RChr 10, RStar RSpace, RPlus RDigit, RStr ''.'']]"

definition requirement_keywords :: "pystr list" where
  "requirement_keywords =
     map u [''experience'', ''skill'', ''proficiency'', ''knowledge'', ''degree'',
            ''qualification'', ''background'', ''ability'', ''familiar'', ''understanding'',
            ''education'', ''proficient'', ''competent'', ''expertise'', ''fluent'',
            ''capable'', ''able to'', ''bachelor'', ''master'', ''phd'', ''certification'',
            ''qualified'']"

definition responsibility_keywords :: "pystr list" where
  "responsibility_keywords =
     map u [''responsible'', ''duty'', ''ensure'', ''manage'', ''develop'', ''create'',
            ''implement'', ''deliver'', ''coordinate'', ''lead'', ''organize'', ''assist'',
            ''maintain'', ''support'', ''prepare'', ''provide'', ''handle'', ''work with'',
            ''collaborate'', ''participate'', ''communicate'', ''report'', ''conduct'']"

definition count_keywords :: "pystr list \<Rightarrow> pystr \<Rightarrow> nat" where
  "count_keywords keywords s = length (filter (\<lambda>keyword. str_in keyword s) keywords)"

definition bullet_stage :: "pylib \<Rightarrow> pystr \<Rightarrow> sections \<Rightarrow> sections" where
  "bullet_stage L description_text structured =
     (let bullet_sections = re_split L bullet_re description_text in
      if 3 < length bullet_sections then
        (let structured1 =
               (if 100 < length (bullet_sections ! 0)
                then AList.update ''about'' (py_strip (bullet_sections ! 0)) structured
                else structured);
             bullets = map (\<lambda>b. [8226, 32] @ py_strip b)
                           (filter (\<lambda>b. py_strip b \<noteq> []) (tl bullet_sections))
         in
         if bullets \<noteq> [] then
           (let bullets_text = str_lower L (join [32] bullets) in
            if count_keywords responsibility_keywords bullets_text
                 < count_keywords requirement_keywords bullets_text
            then AList.update ''requirements'' (join [10] bullets) structured1
            else AList.update ''responsibilities'' (join [10] bullets) structured1)
         else structured1)
      else structured)"

text \<open>
  The last stage, \<open>if not structured and description_text\<close>. The pattern of the split
  is \<open>(\n\s*\d+\.|\n\s*\<bullet>|\n\s*-|\n\s*\*|\n{2,})\<close>, and a piece is dropped when
  \<open>^\s*(\n\s*\d+\.|\n\s*\<bullet>|\n\s*-|\n\s*\*|\n{2,})\s*$\<close> matches it.
\<close>

definition separator_re :: regex where
  "separator_re =
     RGroup 1 (RAlts [RSeqs [RChr 10, RStar RSpace, RPlus RDigit, RStr ''.''],
                      RSeqs [RChr 10, RStar RSpace, RChr 8226],
                      RSeqs [RChr 10, RStar RSpace, RStr ''-''],
                      RSeqs [RChr 10, RStar RSpace, RStr ''*''],
                      RSeq (RChr 10) (RPlus (RChr 10))])"

definition only_separator_re :: regex where
  "only_separator_re = RSeqs [RBol, RStar RSpace, separator_re, RStar RSpace, REol]"

text \<open>\<open>len(s.split())\<close>: the number of maximal runs of characters that are not spaces.\<close>

fun word_count :: "pystr \<Rightarrow> nat" where
  "word_count [] = 0"
| "word_count [c] = (if is_space c then 0 else 1)"
| "word_count (c # d # s) =
     (if \<not> is_space c \<and> is_space d then Suc (word_count (d # s)) else word_count (d # s))"

text \<open>The \<open>if ... elif ...\<close> chain that files a piece under a section, or leaves it out.\<close>

definition classify :: "pylib \<Rightarrow> pystr \<Rightarrow> string option" where
  "classify L section =
     (let section_lower = str_lower L section in
      if word_count section_lower < 10 then None
      else if \<exists>w \<in> set (map u [''experience'', ''skill'', ''require'', ''qualification'',
                                 ''proficiency'']). str_in w section_lower
      then Some ''requirements''
      else if \<exists>w \<in> set (map u [''responsible'', ''duty'', ''task'', ''role'', ''work on'']).
                str_in w section_lower
      then Some ''responsibilities''
      else if \<exists>w \<in> set (map u [''benefit'', ''offer'', ''salary'', ''compensation'',
                                 ''package'']). str_in w section_lower
      then Some ''benefits''
      else if \<exists>w \<in> set (map u [''company'', ''about us'', ''who we are'']).
                str_in w section_lower
      then Some ''about_company''
      else None)"

fun classify_all :: "pylib \<Rightarrow> pystr list \<Rightarrow> sections \<Rightarrow> sections" where
  "classify_all L [] structured = structured"
| "classify_all L (section # rest) structured =
     classify_all L rest
       (case classify L section of
          None \<Rightarrow> structured
        | Some key \<Rightarrow> AList.update key section structured)"

definition overview_stage :: "pylib \<Rightarrow> pystr \<Rightarrow> sections" where
  "overview_stage L description_text =
     (if length description_text < 500 then [(''job_overview'', py_strip description_text)]
      else
        (let sections_split = re_split L separator_re description_text;
             clean_sections =
               map py_strip
                 (filter (\<lambda>section. section \<noteq> [] \<and> re_match L only_separator_re section = None)
                    sections_split)
         in
         if 1 < length clean_sections
         then classify_all L (tl clean_sections) [(''job_overview'', clean_sections ! 0)]
         else [(''job_overview'', py_strip description_text)]))"

text \<open>
  The body of the \<open>try\<close>, and the function with its \<open>except\<close> clause, which returns the
  minimal structure.
\<close>

definition structure_body ::
  "pylib \<Rightarrow> ('f::{linorder,zero} pyval \<Rightarrow> exn + header list) \<Rightarrow> pystr \<Rightarrow> 'f pyval
     \<Rightarrow> exn + sections" where
  "structure_body L H description_text description_html =
     (case html_stage L H description_html of
        Inl e \<Rightarrow> Inl e
      | Inr from_html \<Rightarrow>
          (let structured = (if from_html \<noteq> [] then from_html
                             else text_stage L description_text);
               structured = (if length structured < 2
                             then bullet_stage L description_text structured
                             else structured)
           in
           Inr (if structured = [] \<and> description_text \<noteq> []
                then overview_stage L description_text
                else structured)))"

definition structure_description ::
  "pylib \<Rightarrow> ('f::{linorder,zero} pyval \<Rightarrow> exn + header list) \<Rightarrow> pystr \<Rightarrow> 'f pyval
     \<Rightarrow> sections" where
  "structure_description L H description_text description_html =
     (case structure_body L H description_text description_html of
        Inr structured \<Rightarrow> structured
      | Inl e \<Rightarrow> if description_text \<noteq> [] then [(''job_overview'', py_strip description_text)]
                 else [])"

subsection \<open>The stages, observed\<close>

text \<open>
  The names a section can have, and a dictionary of sections with distinct keys among
  them.
\<close>

definition section_names :: "string list" where
  "section_names = map fst section_keywords @ [''about'']"

definition wf_sections :: "sections \<Rightarrow> bool" where
  "wf_sections d = (distinct (map fst d) \<and> list_all (\<lambda>k. k \<in> set section_names) (map fst d))"

text \<open>
  What a header of the HTML contributes: the section its text names, and the text
  collected after it.
\<close>

definition header_section :: "pylib \<Rightarrow> header \<Rightarrow> string option" where
  "header_section L h =
     (case fst h of
        Inl e \<Rightarrow> None
      | Inr t \<Rightarrow>
          (let header_text = str_lower L (py_strip t) in
           if header_text = [] \<or> 50 < length header_text then None
           else match_section section_keywords header_text))"

definition header_content :: "header \<Rightarrow> pystr list" where
  "header_content h = (case collect_content (snd h) of Inl e \<Rightarrow> [] | Inr content \<Rightarrow> content)"

definition headers_of :: "pylib \<Rightarrow> string \<Rightarrow> header list \<Rightarrow> header list" where
  "headers_of L k hs = filter (\<lambda>h. header_section L h = Some k \<and> header_content h \<noteq> []) hs"

text \<open>A line of the text that the second stage takes for the header of a section.\<close>

definition header_line :: "pylib \<Rightarrow> pystr \<Rightarrow> string option" where
  "header_line L raw_line =
     (let line = py_strip raw_line in
      if line \<noteq> [] \<and> length line < 50 then match_section section_keywords (str_lower L line)
      else None)"

subsection \<open>Example descriptions\<close>

text \<open>
  A parse for the examples: one HTML with the headers \<open>Requirements\<close> and \<open>Benefits\<close>,
  each followed by one paragraph, one HTML that the parser refuses, and no headers in
  anything else.
\<close>

definition example_html :: pystr where
  "example_html = u ''<h2>Requirements</h2><p>Python</p><h2>Benefits</h2><p>Pension</p>''"

definition example_parse :: "rat pyval \<Rightarrow> exn + header list" where
  "example_parse description_html =
     (case description_html of
        PStr s \<Rightarrow>
          if s = example_html
          then Inr [(Inr (u ''Requirements''),
                      [(False, Inr (u ''Python'')), (True, Inr (u ''Benefits'')),
                       (False, Inr (u ''Pension''))]),
                    (Inr (u ''Benefits''), [(False, Inr (u ''Pension''))])]
          else if s = u ''<b>'' then Inl (Exn ''ParserRejectedMarkup'')
          else Inr []
      | _ \<Rightarrow> Inr [])"

definition example_headed_text :: pystr where
  "example_headed_text =
     join [10] (map u [''Requirements'', ''Python'', ''SQL'', '''', ''Benefits'', ''Pension''])"

definition example_bullet_text :: pystr where
  "example_bullet_text =
     join [10] (map u [''Tasks'', ''- manage a'', ''- develop b'', ''- lead c''])"

section \<open>CSV export (\<open>run_improved_ziprecruiter.py\<close>, \<open>export_to_csv\<close>)\<close>

text \<open>The \<open>headers\<close> list of \<open>export_to_csv\<close>, in source order.\<close>

definition headers :: "string list" where
  "headers =
    [''title'', ''company'', ''location'', ''url'', ''salary'', ''description'',
     ''date_posted'', ''date_posted_iso'', ''is_remote'', ''is_uk'', ''is_europe'',
     ''region'', ''country_code'', ''source'', ''job_id'', ''source_id'', ''id'',
     ''job_type'', ''standardized_job_type'', ''experience'', ''skills'',
     ''structured_description'']"

text \<open>
  \<open>csv.DictWriter(csvfile, fieldnames, extrasaction='ignore')\<close> turns a row dictionary
  into the list \<open>rowdict.get(key, restval)\<close> over the field names, \<open>restval\<close> being the
  empty string; with \<open>extrasaction='ignore'\<close> the other keys of the row are not looked at.
\<close>

definition dict_to_list :: "string list \<Rightarrow> 'f pydict \<Rightarrow> 'f pyval list" where
  "dict_to_list fieldnames rowdict =
     map (\<lambda>key. dict_get_default rowdict key (PStr [])) fieldnames"

text \<open>
  The file is opened with \<open>encoding='utf-8'\<close>, and the writer hands each row to
  \<open>csvfile.write\<close> as one line. A \<open>str\<close> with a surrogate code point (\<open>U+D800\<close> to
  \<open>U+DFFF\<close>) cannot be encoded: \<open>write\<close> raises \<open>UnicodeEncodeError\<close> and nothing of that
  line reaches the file. A cell that is a \<open>str\<close> is written as it is; \<open>None\<close> is written
  as the empty string and any other value as \<open>str(value)\<close>, which escapes such code
  points inside lists and dictionaries.
\<close>

fun cell_writable :: "'f pyval \<Rightarrow> bool" where
  "cell_writable (PStr s) = utf8_encodable s"
| "cell_writable v = True"

definition row_writable :: "'f pyval list \<Rightarrow> bool" where
  "row_writable row = list_all cell_writable row"

text \<open>
  \<open>writer.writerows(jobs)\<close>: the rows are written one after the other; the first row
  that cannot be written raises, which ends the loop, and the \<open>except\<close> clause of
  \<open>export_to_csv\<close> logs the error; the rows written before stay in the file.
\<close>

fun writerows :: "string list \<Rightarrow> 'f pydict list \<Rightarrow> 'f pyval list list" where
  "writerows fieldnames [] = []"
| "writerows fieldnames (job # jobs) =
     (let row = dict_to_list fieldnames job in
      if row_writable row then row # writerows fieldnames jobs else [])"

text \<open>
  \<open>export_to_csv jobs filename\<close>. The effect is the file: the model returns the rows that
  reach it, the header row first (\<open>writeheader\<close>, then \<open>writerows\<close>).
  \<open>can_open filename\<close> tells whether \<open>open(filename, 'w')\<close> succeeds; when it raises,
  the \<open>except\<close> clause logs the error and there is no file (\<open>None\<close>). The header names are
  ASCII, so the header row is always written. Once the file is open the device is taken to
  accept what is written.
\<close>

definition export_to_csv ::
  "(string \<Rightarrow> bool) \<Rightarrow> 'f pydict list \<Rightarrow> string \<Rightarrow> 'f pyval list list option" where
  "export_to_csv can_open jobs filename =
     (if can_open filename
      then Some (map (\<lambda>h. PStr (u h)) headers # writerows headers jobs)
      else None)"

section \<open>Properties of \<open>extract_job_type\<close>\<close>

lemma any_pattern_iff:
  "any_pattern L patterns text = (\<exists>p \<in> set patterns. re_search L p True text \<noteq> None)"
  by (induction patterns) auto

lemma first_type_in_keys:
  "first_type L pats text = Some t \<Longrightarrow> t \<in> fst ` set pats"
  by (induction pats) (auto split: if_splits)

lemma first_type_None_iff:
  "first_type L pats text = None \<longleftrightarrow> (\<forall>i < length pats. \<not> any_pattern L (snd (pats ! i)) text)"
proof (induction pats)
  case Nil
  then show ?case by simp
next
  case (Cons a pats)
  obtain t ps where a: "a = (t, ps)" by (cases a)
  show ?case
    using Cons.IH by (auto simp: a less_Suc_eq_0_disj)
qed

lemma first_type_first:
  "i < length pats \<Longrightarrow> any_pattern L (snd (pats ! i)) text \<Longrightarrow>
   (\<forall>j < i. \<not> any_pattern L (snd (pats ! j)) text) \<Longrightarrow>
   first_type L pats text = Some (fst (pats ! i))"
proof (induction pats arbitrary: i)
  case Nil
  then show ?case by simp
next
  case (Cons a pats)
  obtain t ps where a: "a = (t, ps)" by (cases a)
  show ?case
  proof (cases i)
    case 0
    with Cons.prems show ?thesis by (simp add: a)
  next
    case (Suc k)
    have "\<not> any_pattern L ps text"
      using Cons.prems(3) Suc a by fastforce
    moreover have "first_type L pats text = Some (fst (pats ! k))"
      using Cons.prems Suc by (intro Cons.IH) auto
    ultimately show ?thesis
      by (simp add: a Suc)
  qed
qed

lemma first_type_in_contexts_in_keys:
  "first_type_in_contexts L ms = Some t \<Longrightarrow> t \<in> fst ` set job_type_patterns"
  by (induction ms) (auto simp: Let_def split: option.splits dest: first_type_in_keys)

lemma first_type_in_contexts_None:
  "(\<forall>m \<in> set ms. first_type L job_type_patterns (context_of m) = None)
   \<Longrightarrow> first_type_in_contexts L ms = None"
  by (induction ms) (auto simp: Let_def)

lemma first_type_in_contexts_first:
  "k < length ms \<Longrightarrow> first_type L job_type_patterns (context_of (ms ! k)) = Some t \<Longrightarrow>
   (\<forall>j < k. first_type L job_type_patterns (context_of (ms ! j)) = None) \<Longrightarrow>
   first_type_in_contexts L ms = Some t"
proof (induction ms arbitrary: k)
  case Nil
  then show ?case by simp
next
  case (Cons m ms)
  show ?case
  proof (cases k)
    case 0
    with Cons.prems show ?thesis by (simp add: Let_def)
  next
    case (Suc n)
    have "first_type L job_type_patterns (context_of m) = None"
      using Cons.prems(3) Suc by fastforce
    moreover have "first_type_in_contexts L ms = Some t"
      using Cons.prems Suc by (intro Cons.IH [of n]) auto
    ultimately show ?thesis by (simp add: Let_def)
  qed
qed

lemma first_entry_first_type:
  "first_entry L i s \<Longrightarrow> first_type L job_type_patterns s = Some (fst (job_type_patterns ! i))"
  unfolding first_entry_def
  by (intro first_type_first) (auto simp: any_pattern_iff entry_matches_def)

lemma unmatched_first_type:
  "unmatched L s \<Longrightarrow> first_type L job_type_patterns s = None"
  by (simp add: unmatched_def first_type_None_iff any_pattern_iff entry_matches_def)

lemma keys_job_type_patterns: "map fst job_type_patterns = standard_types"
  by (simp add: job_type_patterns_def standard_types_def)

lemma standard_types_nonempty: "t \<in> set standard_types \<Longrightarrow> t \<noteq> []"
  by (auto simp: standard_types_def u_def)

lemma extract_job_type_in_types:
  "given job_type_text \<or> given description_text \<Longrightarrow>
   extract_job_type L job_type_text description_text \<in> set standard_types"
proof -
  assume g: "given job_type_text \<or> given description_text"
  have k: "t \<in> set standard_types" if "t \<in> fst ` set job_type_patterns" for t
    using that keys_job_type_patterns by (metis set_map)
  have f: "u ''Full-time'' \<in> set standard_types"
    by (simp add: standard_types_def)
  show ?thesis
    using g f
    by (auto simp: extract_job_type_def Let_def split: option.splits
        dest!: first_type_in_keys first_type_in_contexts_in_keys intro!: k)
qed

text \<open>
  Claim C10: \<open>extract_job_type\<close> always returns a string; it returns the empty string
  exactly when both arguments are absent or empty; otherwise it returns one of the seven
  standardized types. The result is decided by the first of three searches that finds a
  type, each search taking the first entry of the table with a matching pattern: the
  search of \<open>job_type_text\<close>, whatever the description says; else the search of the
  "... type: ..." contexts of the description, in their order; else the search of the
  whole description. When no pattern matches any of these texts the result is
  \<open>"Full-time"\<close>.
\<close>

theorem extract_job_type_total:
  "(extract_job_type L job_type_text description_text = [])
     = (\<not> given job_type_text \<and> \<not> given description_text)
   \<and> (given job_type_text \<or> given description_text \<longrightarrow>
        extract_job_type L job_type_text description_text \<in> set standard_types)
   \<and> (\<forall>i. given job_type_text \<and> first_entry L i (str_lower L (the job_type_text))
        \<longrightarrow> extract_job_type L job_type_text description_text = fst (job_type_patterns ! i))
   \<and> (\<forall>i k. (given job_type_text \<longrightarrow> unmatched L (str_lower L (the job_type_text)))
        \<and> given description_text
        \<and> k < length (re_finditer L job_type_context_re (str_lower L (the description_text)))
        \<and> (\<forall>j < k. unmatched L (context_of
              (re_finditer L job_type_context_re (str_lower L (the description_text)) ! j)))
        \<and> first_entry L i (context_of
              (re_finditer L job_type_context_re (str_lower L (the description_text)) ! k))
        \<longrightarrow> extract_job_type L job_type_text description_text = fst (job_type_patterns ! i))
   \<and> (\<forall>i. (given job_type_text \<longrightarrow> unmatched L (str_lower L (the job_type_text)))
        \<and> given description_text
        \<and> (\<forall>m \<in> set (re_finditer L job_type_context_re (str_lower L (the description_text))).
              unmatched L (context_of m))
        \<and> first_entry L i (str_lower L (the description_text))
        \<longrightarrow> extract_job_type L job_type_text description_text = fst (job_type_patterns ! i))
   \<and> ((given job_type_text \<or> given description_text)
        \<and> (given job_type_text \<longrightarrow> unmatched L (str_lower L (the job_type_text)))
        \<and> (given description_text \<longrightarrow>
              unmatched L (str_lower L (the description_text))
            \<and> (\<forall>m \<in> set (re_finditer L job_type_context_re
                             (str_lower L (the description_text))).
                 unmatched L (context_of m)))
        \<longrightarrow> extract_job_type L job_type_text description_text = u ''Full-time'')"
proof -
  let ?r = "extract_job_type L job_type_text description_text"
  let ?jt = "str_lower L (the job_type_text)"
  let ?d = "str_lower L (the description_text)"
  let ?cs = "re_finditer L job_type_context_re ?d"
  have jt_none: "(if given job_type_text then first_type L job_type_patterns ?jt else None) = None"
    if "given job_type_text \<longrightarrow> unmatched L ?jt"
    using that by (simp add: unmatched_first_type)
  have c1: "(?r = []) = (\<not> given job_type_text \<and> \<not> given description_text)"
  proof (cases "given job_type_text \<or> given description_text")
    case True
    then have "?r \<noteq> []"
      using extract_job_type_in_types standard_types_nonempty by blast
    with True show ?thesis by blast
  next
    case False
    then show ?thesis by (simp add: extract_job_type_def)
  qed
  have c2: "given job_type_text \<or> given description_text \<longrightarrow> ?r \<in> set standard_types"
    using extract_job_type_in_types by blast
  have c3: "?r = fst (job_type_patterns ! i)"
    if "given job_type_text \<and> first_entry L i ?jt" for i
    using that first_entry_first_type [of L i ?jt] by (simp add: extract_job_type_def)
  have c4: "?r = fst (job_type_patterns ! i)"
    if h: "(given job_type_text \<longrightarrow> unmatched L ?jt) \<and> given description_text
        \<and> k < length ?cs \<and> (\<forall>j < k. unmatched L (context_of (?cs ! j)))
        \<and> first_entry L i (context_of (?cs ! k))" for i k
  proof -
    have "first_type_in_contexts L ?cs = Some (fst (job_type_patterns ! i))"
      using h by (intro first_type_in_contexts_first [of k])
        (auto simp: first_entry_first_type unmatched_first_type)
    then show ?thesis
      using h jt_none by (simp add: extract_job_type_def Let_def)
  qed
  have c5: "?r = fst (job_type_patterns ! i)"
    if h: "(given job_type_text \<longrightarrow> unmatched L ?jt) \<and> given description_text
        \<and> (\<forall>m \<in> set ?cs. unmatched L (context_of m)) \<and> first_entry L i ?d" for i
  proof -
    have "first_type_in_contexts L ?cs = None"
      using h by (intro first_type_in_contexts_None) (auto simp: unmatched_first_type)
    moreover have "first_type L job_type_patterns ?d = Some (fst (job_type_patterns ! i))"
      using h by (simp add: first_entry_first_type)
    ultimately show ?thesis
      using h jt_none by (simp add: extract_job_type_def Let_def)
  qed
  have c6: "?r = u ''Full-time''"
    if h: "(given job_type_text \<or> given description_text)
        \<and> (given job_type_text \<longrightarrow> unmatched L ?jt)
        \<and> (given description_text \<longrightarrow>
              unmatched L ?d \<and> (\<forall>m \<in> set ?cs. unmatched L (context_of m)))"
  proof (cases "given description_text")
    case True
    have "first_type_in_contexts L ?cs = None"
      using h True by (intro first_type_in_contexts_None) (auto simp: unmatched_first_type)
    moreover have "first_type L job_type_patterns ?d = None"
      using h True by (simp add: unmatched_first_type)
    ultimately show ?thesis
      using h True jt_none by (simp add: extract_job_type_def Let_def)
  next
    case False
    then show ?thesis
      using h jt_none by (simp add: extract_job_type_def)
  qed
  show ?thesis
    using c1 c2 c3 c4 c5 c6 by blast
qed

theorem extract_job_type_total_witness:
  "given (Some (u ''Contract role''))
   \<and> entry_matches pyre 2 (str_lower pyre (u ''Contract role''))
   \<and> \<not> entry_matches pyre 0 (str_lower pyre (u ''Contract role''))
   \<and> \<not> entry_matches pyre 1 (str_lower pyre (u ''Contract role''))
   \<and> extract_job_type pyre (Some (u ''Contract role'')) (Some (u ''a part time job''))
       = u ''Contract''
   \<and> re_finditer pyre job_type_context_re (str_lower pyre (u ''Part time role'')) = []
   \<and> entry_matches pyre 1 (str_lower pyre (u ''Part time role''))
   \<and> \<not> entry_matches pyre 0 (str_lower pyre (u ''Part time role''))
   \<and> extract_job_type pyre None (Some (u ''Part time role'')) = u ''Part-time''
   \<and> map context_of (re_finditer pyre job_type_context_re
                         (str_lower pyre (u ''Job type: contract. Full time'')))
       = [u ''contract'']
   \<and> entry_matches pyre 0 (str_lower pyre (u ''Job type: contract. Full time''))
   \<and> extract_job_type pyre None (Some (u ''Job type: contract. Full time'')) = u ''Contract''
   \<and> given (Some (u ''Engineer''))
   \<and> extract_job_type pyre None (Some (u ''Engineer'')) = u ''Full-time''
   \<and> extract_job_type pyre None (Some []) = []"
proof -
  let ?jt = "Some (u ''Contract role'')" and ?d = "Some (u ''a part time job'')"
  let ?p = "Some (u ''Part time role'')"
  let ?c = "Some (u ''Job type: contract. Full time'')"
  let ?e = "Some (u ''Engineer'')"
  note T = extract_job_type_total
  have g: "given ?jt" "given ?e" "given ?p" "given ?c" "\<not> given None" "\<not> given (Some [])"
    by (simp_all add: given_def u_def)
  have l: "2 < length job_type_patterns" "fst (job_type_patterns ! 2) = u ''Contract''"
    "fst (job_type_patterns ! 1) = u ''Part-time''"
    by (simp_all add: job_type_patterns_def)
  have m2: "entry_matches pyre 2 (str_lower pyre (the ?jt))"
    and m0: "\<not> entry_matches pyre 0 (str_lower pyre (the ?jt))"
    and m1: "\<not> entry_matches pyre 1 (str_lower pyre (the ?jt))"
    by code_simp+
  have f2: "first_entry pyre 2 (str_lower pyre (the ?jt))"
    using m2 m0 m1 l by (simp add: first_entry_def less_Suc_eq numeral_2_eq_2)
  have c: "extract_job_type pyre ?jt ?d = u ''Contract''"
    using T [of pyre ?jt ?d, THEN conjunct2, THEN conjunct2, THEN conjunct1, rule_format, of 2]
      g f2 l by simp
  have pc: "re_finditer pyre job_type_context_re (str_lower pyre (the ?p)) = []"
    by code_simp
  have p1: "entry_matches pyre 1 (str_lower pyre (the ?p))"
    and p0: "\<not> entry_matches pyre 0 (str_lower pyre (the ?p))"
    by code_simp+
  have fp: "first_entry pyre 1 (str_lower pyre (the ?p))"
    using p1 p0 l by (simp add: first_entry_def)
  have p: "extract_job_type pyre None ?p = u ''Part-time''"
    using T [of pyre None ?p, THEN conjunct2, THEN conjunct2, THEN conjunct2, THEN conjunct2,
             THEN conjunct1, rule_format, of 1]
      g fp pc l by simp
  have cc: "map context_of (re_finditer pyre job_type_context_re (str_lower pyre (the ?c)))
              = [u ''contract'']"
    by code_simp
  have c0: "entry_matches pyre 0 (str_lower pyre (the ?c))"
    by code_simp
  have k2: "entry_matches pyre 2 (u ''contract'')"
    and k0: "\<not> entry_matches pyre 0 (u ''contract'')"
    and k1: "\<not> entry_matches pyre 1 (u ''contract'')"
    by code_simp+
  have fk: "first_entry pyre 2 (u ''contract'')"
    using k2 k0 k1 l by (simp add: first_entry_def less_Suc_eq numeral_2_eq_2)
  have ck: "0 < length (re_finditer pyre job_type_context_re (str_lower pyre (the ?c)))"
    "context_of (re_finditer pyre job_type_context_re (str_lower pyre (the ?c)) ! 0)
       = u ''contract''"
    using cc by (auto simp: map_eq_Cons_conv)
  have x: "extract_job_type pyre None ?c = u ''Contract''"
    using T [of pyre None ?c, THEN conjunct2, THEN conjunct2, THEN conjunct2, THEN conjunct1,
             rule_format, of 0 2]
      g fk ck l by simp
  have "list_all (\<lambda>e. \<not> (\<exists>pattern \<in> set (snd e).
           re_search pyre pattern True (str_lower pyre (the ?e)) \<noteq> None)) job_type_patterns"
    by code_simp
  then have e1: "unmatched pyre (str_lower pyre (the ?e))"
    by (simp add: unmatched_def entry_matches_def list_all_length)
  have e2: "re_finditer pyre job_type_context_re (str_lower pyre (the ?e)) = []"
    by code_simp
  have f: "extract_job_type pyre None ?e = u ''Full-time''"
    using T [of pyre None ?e] g e1 e2 by simp
  have z: "extract_job_type pyre None (Some []) = []"
    using T [of pyre None "Some []"] g by simp
  show ?thesis
    using g m2 m0 m1 c pc p1 p0 p cc c0 x f z by simp
qed

section \<open>Properties of \<open>extract_salary\<close>\<close>

lemma salary_from_selectors_step:
  "salary_from_selectors job_card (selector # rest) =
     (case selector_text job_card selector of
        Some t \<Rightarrow> Some t
      | None \<Rightarrow> salary_from_selectors job_card rest)"
  by (simp add: selector_text_def split: sum.splits option.splits)

lemma salary_from_selectors_first:
  "i < length sels \<Longrightarrow> selector_text job_card (sels ! i) = Some t \<Longrightarrow>
   (\<forall>j < i. selector_text job_card (sels ! j) = None) \<Longrightarrow>
   salary_from_selectors job_card sels = Some t"
proof (induction sels arbitrary: i)
  case Nil
  then show ?case by simp
next
  case (Cons s sels)
  show ?case
  proof (cases i)
    case 0
    with Cons.prems show ?thesis
      by (simp add: salary_from_selectors_step del: salary_from_selectors.simps)
  next
    case (Suc k)
    have "selector_text job_card s = None"
      using Cons.prems(3) Suc by fastforce
    moreover have "salary_from_selectors job_card sels = Some t"
      using Cons.prems Suc by (intro Cons.IH [of k]) auto
    ultimately show ?thesis
      by (simp add: salary_from_selectors_step del: salary_from_selectors.simps)
  qed
qed

lemma salary_from_selectors_None_iff:
  "salary_from_selectors job_card sels = None
     \<longleftrightarrow> (\<forall>i < length sels. selector_text job_card (sels ! i) = None)"
proof (induction sels)
  case Nil
  then show ?case by simp
next
  case (Cons s sels)
  show ?case
    unfolding salary_from_selectors_step
    using Cons.IH by (auto simp: less_Suc_eq_0_disj split: option.splits)
qed

lemma salary_from_patterns_first:
  "k < length pats \<Longrightarrow> re_search L (pats ! k) True full_text = Some m \<Longrightarrow>
   (\<forall>j < k. re_search L (pats ! j) True full_text = None) \<Longrightarrow>
   salary_from_patterns L pats full_text = Some (py_strip (mt_group0 m))"
proof (induction pats arbitrary: k)
  case Nil
  then show ?case by simp
next
  case (Cons p pats)
  show ?case
  proof (cases k)
    case 0
    with Cons.prems show ?thesis by simp
  next
    case (Suc n)
    have "re_search L p True full_text = None"
      using Cons.prems(3) Suc by fastforce
    moreover have "salary_from_patterns L pats full_text = Some (py_strip (mt_group0 m))"
      using Cons.prems Suc by (intro Cons.IH [of n]) auto
    ultimately show ?thesis by simp
  qed
qed

lemma salary_from_patterns_None_iff:
  "salary_from_patterns L pats full_text = None
     \<longleftrightarrow> (\<forall>k < length pats. re_search L (pats ! k) True full_text = None)"
proof (induction pats)
  case Nil
  then show ?case by simp
next
  case (Cons p pats)
  show ?case
    using Cons.IH by (auto simp: less_Suc_eq_0_disj split: option.splits)
qed

lemma salary_from_patterns_Some:
  "salary_from_patterns L pats full_text = Some t \<Longrightarrow>
   \<exists>k < length pats. \<exists>m. re_search L (pats ! k) True full_text = Some m
      \<and> (\<forall>j < k. re_search L (pats ! j) True full_text = None)
      \<and> t = py_strip (mt_group0 m)"
proof (induction pats)
  case Nil
  then show ?case by simp
next
  case (Cons p pats)
  show ?case
  proof (cases "re_search L p True full_text")
    case None
    with Cons.prems have "salary_from_patterns L pats full_text = Some t"
      by simp
    from Cons.IH [OF this] obtain k m where k: "k < length pats"
      and m: "re_search L (pats ! k) True full_text = Some m"
      and n: "\<forall>j < k. re_search L (pats ! j) True full_text = None"
      and t: "t = py_strip (mt_group0 m)"
      by blast
    have "\<forall>j < Suc k. re_search L ((p # pats) ! j) True full_text = None"
      using None n by (auto simp: less_Suc_eq_0_disj)
    with k m t show ?thesis
      by (intro exI [of _ "Suc k"]) auto
  next
    case (Some m)
    with Cons.prems show ?thesis
      by (intro exI [of _ 0]) auto
  qed
qed

lemma salary_from_selectors_Some:
  "salary_from_selectors job_card sels = Some t \<Longrightarrow>
   \<exists>i < length sels. selector_text job_card (sels ! i) = Some t
      \<and> (\<forall>j < i. selector_text job_card (sels ! j) = None)"
proof (induction sels)
  case Nil
  then show ?case by simp
next
  case (Cons s sels)
  show ?case
  proof (cases "selector_text job_card s")
    case None
    with Cons.prems have "salary_from_selectors job_card sels = Some t"
      by (simp add: salary_from_selectors_step del: salary_from_selectors.simps)
    from Cons.IH [OF this] obtain i where i: "i < length sels"
      and m: "selector_text job_card (sels ! i) = Some t"
      and n: "\<forall>j < i. selector_text job_card (sels ! j) = None"
      by blast
    have "\<forall>j < Suc i. selector_text job_card ((s # sels) ! j) = None"
      using None n by (auto simp: less_Suc_eq_0_disj)
    with i m show ?thesis
      by (intro exI [of _ "Suc i"]) auto
  next
    case (Some t')
    with Cons.prems have "t' = t"
      by (simp add: salary_from_selectors_step del: salary_from_selectors.simps)
    with Some show ?thesis
      by (intro exI [of _ 0]) auto
  qed
qed

lemma selector_text_nonempty: "selector_text job_card selector = Some t \<Longrightarrow> t \<noteq> []"
  by (auto simp: selector_text_def split: sum.splits option.splits if_splits)

lemma salary_data_text:
  "map_of (salary_data L F salary_text) ''text'' = Some (PStr salary_text)"
  by (simp add: salary_data_def Let_def split: sum.splits)

lemma extract_salary_of_text:
  "find_salary_text L job_card = Some t \<Longrightarrow> t \<noteq> [] \<Longrightarrow>
   \<exists>d. extract_salary L F job_card = Some d
     \<and> map_of d ''text'' = Some (PStr (clean_salary_text L t))"
  by (simp add: extract_salary_def salary_data_text)

text \<open>
  Claim C1: the salary text is that of the first CSS selector, in the listed order, that
  yields non-empty text; only when no selector yields text is the text of the card
  searched with the patterns, in the listed order, and the first pattern that matches
  gives the text; the text found is the \<open>"text"\<close> of the result; and \<open>extract_salary\<close>
  returns \<open>None\<close> exactly when no selector yields text and the patterns yield no text
  (the text of the card cannot be read, no pattern matches, or the first match is blank).
\<close>

theorem extract_salary_cascade:
  "(\<forall>i < length salary_selectors. \<forall>t.
      selector_text job_card (salary_selectors ! i) = Some t
      \<and> (\<forall>j < i. selector_text job_card (salary_selectors ! j) = None)
      \<longrightarrow> find_salary_text L job_card = Some t
        \<and> (\<exists>d. extract_salary L F job_card = Some d
               \<and> map_of d ''text'' = Some (PStr (clean_salary_text L t))))
   \<and> ((\<forall>i < length salary_selectors. selector_text job_card (salary_selectors ! i) = None)
       \<longrightarrow> (\<forall>full_text. tag_text job_card = Inr full_text \<longrightarrow>
             (\<forall>k < length salary_patterns. \<forall>m.
                re_search L (salary_patterns ! k) True full_text = Some m
                \<and> (\<forall>j < k. re_search L (salary_patterns ! j) True full_text = None)
                \<longrightarrow> find_salary_text L job_card = Some (py_strip (mt_group0 m))
                  \<and> (py_strip (mt_group0 m) \<noteq> [] \<longrightarrow>
                       (\<exists>d. extract_salary L F job_card = Some d
                          \<and> map_of d ''text''
                              = Some (PStr (clean_salary_text L (py_strip (mt_group0 m)))))))))
   \<and> ((extract_salary L F job_card = None)
        = ((\<forall>i < length salary_selectors.
              selector_text job_card (salary_selectors ! i) = None)
           \<and> \<not> (\<exists>full_text k m. tag_text job_card = Inr full_text
                  \<and> k < length salary_patterns
                  \<and> re_search L (salary_patterns ! k) True full_text = Some m
                  \<and> (\<forall>j < k. re_search L (salary_patterns ! j) True full_text = None)
                  \<and> py_strip (mt_group0 m) \<noteq> [])))"
proof (intro conjI allI impI)
  fix i t
  assume i: "i < length salary_selectors"
    and h: "selector_text job_card (salary_selectors ! i) = Some t
      \<and> (\<forall>j < i. selector_text job_card (salary_selectors ! j) = None)"
  then have "salary_from_selectors job_card salary_selectors = Some t"
    by (intro salary_from_selectors_first [of i]) auto
  then show f: "find_salary_text L job_card = Some t"
    by (simp add: find_salary_text_def)
  have "t \<noteq> []"
    using h selector_text_nonempty by blast
  with f show "\<exists>d. extract_salary L F job_card = Some d
               \<and> map_of d ''text'' = Some (PStr (clean_salary_text L t))"
    by (rule extract_salary_of_text)
next
  fix full_text k m
  assume n: "\<forall>i < length salary_selectors. selector_text job_card (salary_selectors ! i) = None"
    and ft: "tag_text job_card = Inr full_text"
    and k: "k < length salary_patterns"
    and h: "re_search L (salary_patterns ! k) True full_text = Some m
                \<and> (\<forall>j < k. re_search L (salary_patterns ! j) True full_text = None)"
  have s: "salary_from_selectors job_card salary_selectors = None"
    using n by (simp add: salary_from_selectors_None_iff)
  have "salary_from_patterns L salary_patterns full_text = Some (py_strip (mt_group0 m))"
    using k h by (intro salary_from_patterns_first [of k]) auto
  with s ft show f: "find_salary_text L job_card = Some (py_strip (mt_group0 m))"
    by (simp add: find_salary_text_def)
  show "\<exists>d. extract_salary L F job_card = Some d
          \<and> map_of d ''text'' = Some (PStr (clean_salary_text L (py_strip (mt_group0 m))))"
    if "py_strip (mt_group0 m) \<noteq> []"
    using f that by (rule extract_salary_of_text)
next
  let ?sel = "\<forall>i < length salary_selectors. selector_text job_card (salary_selectors ! i) = None"
  let ?pat = "\<exists>full_text k m. tag_text job_card = Inr full_text
                  \<and> k < length salary_patterns
                  \<and> re_search L (salary_patterns ! k) True full_text = Some m
                  \<and> (\<forall>j < k. re_search L (salary_patterns ! j) True full_text = None)
                  \<and> py_strip (mt_group0 m) \<noteq> []"
  show "(extract_salary L F job_card = None) = (?sel \<and> \<not> ?pat)"
  proof
    assume none: "extract_salary L F job_card = None"
    have f: "find_salary_text L job_card = None \<or> find_salary_text L job_card = Some []"
      using none by (auto simp: extract_salary_def split: option.splits if_splits)
    have s: "salary_from_selectors job_card salary_selectors = None"
    proof (cases "salary_from_selectors job_card salary_selectors")
      case None
      then show ?thesis .
    next
      case (Some t)
      then have "find_salary_text L job_card = Some t"
        by (simp add: find_salary_text_def)
      moreover have "t \<noteq> []"
        using salary_from_selectors_Some [OF Some] selector_text_nonempty by blast
      ultimately show ?thesis
        using f by simp
    qed
    then have sel: ?sel
      by (simp add: salary_from_selectors_None_iff)
    have "\<not> ?pat"
    proof
      assume ?pat
      then obtain full_text k m where ft: "tag_text job_card = Inr full_text"
        and k: "k < length salary_patterns"
        and m: "re_search L (salary_patterns ! k) True full_text = Some m"
        and j: "\<forall>j < k. re_search L (salary_patterns ! j) True full_text = None"
        and ne: "py_strip (mt_group0 m) \<noteq> []"
        by blast
      have "salary_from_patterns L salary_patterns full_text = Some (py_strip (mt_group0 m))"
        using k m j by (rule salary_from_patterns_first)
      with s ft have "find_salary_text L job_card = Some (py_strip (mt_group0 m))"
        by (simp add: find_salary_text_def)
      with f ne show False
        by simp
    qed
    with sel show "?sel \<and> \<not> ?pat" ..
  next
    assume a: "?sel \<and> \<not> ?pat"
    then have s: "salary_from_selectors job_card salary_selectors = None"
      by (simp add: salary_from_selectors_None_iff)
    have "find_salary_text L job_card = None \<or> find_salary_text L job_card = Some []"
    proof (cases "tag_text job_card")
      case (Inl e)
      with s show ?thesis
        by (simp add: find_salary_text_def)
    next
      case (Inr full_text)
      show ?thesis
      proof (cases "salary_from_patterns L salary_patterns full_text")
        case None
        with s Inr show ?thesis
          by (simp add: find_salary_text_def)
      next
        case (Some t)
        from salary_from_patterns_Some [OF Some] obtain k m
          where "k < length salary_patterns"
            "re_search L (salary_patterns ! k) True full_text = Some m"
            "\<forall>j < k. re_search L (salary_patterns ! j) True full_text = None"
            "t = py_strip (mt_group0 m)"
          by blast
        with a Inr have "t = []"
          by blast
        with s Inr Some show ?thesis
          by (simp add: find_salary_text_def)
      qed
    qed
    then show "extract_salary L F job_card = None"
      by (auto simp: extract_salary_def)
  qed
qed

lemma foldl_min: "foldl (\<lambda>m x. if x < m then x else m) (a::'a::linorder) xs = Min (insert a (set xs))"
proof (induction xs arbitrary: a)
  case Nil
  then show ?case by simp
next
  case (Cons x xs)
  have "(if x < a then x else a) = min a x" by (auto simp: min_def)
  then have "foldl (\<lambda>m x. if x < m then x else m) a (x # xs) = Min (insert (min a x) (set xs))"
    using Cons.IH by simp
  also have "\<dots> = Min (insert a (insert x (set xs)))"
    by (cases "xs = []") (simp_all add: min.assoc)
  finally show ?case by simp
qed

lemma foldl_max: "foldl (\<lambda>m x. if m < x then x else m) (a::'a::linorder) xs = Max (insert a (set xs))"
proof (induction xs arbitrary: a)
  case Nil
  then show ?case by simp
next
  case (Cons x xs)
  have "(if a < x then x else a) = max a x" by (auto simp: max_def)
  then have "foldl (\<lambda>m x. if m < x then x else m) a (x # xs) = Max (insert (max a x) (set xs))"
    using Cons.IH by simp
  also have "\<dots> = Max (insert a (insert x (set xs)))"
    by (cases "xs = []") (simp_all add: max.assoc)
  finally show ?case by simp
qed

lemma py_min_Min: "xs \<noteq> [] \<Longrightarrow> py_min xs = Min (set xs)"
  by (cases xs) (simp_all add: py_min_def foldl_min)

lemma py_max_Max: "xs \<noteq> [] \<Longrightarrow> py_max xs = Max (set xs)"
  by (cases xs) (simp_all add: py_max_def foldl_max)

lemma cleaned_numbers_length: "cleaned_numbers F ns = Inr xs \<Longrightarrow> length xs = length ns"
  by (induction ns arbitrary: xs) (auto split: sum.splits)

lemma cleaned_numbers_nth:
  "cleaned_numbers F ns = Inr xs \<Longrightarrow> i < length ns \<Longrightarrow> F (filter (\<lambda>c. c \<noteq> 44) (ns ! i)) = Inr (xs ! i)"
  by (induction ns arbitrary: xs i) (auto split: sum.splits simp: nth_Cons split: nat.splits)

text \<open>
  Claim C9: whenever \<open>extract_salary\<close> returns a dictionary, its \<open>"text"\<close> is the cleaned
  salary text that was found; and when every number found in that text is converted by
  \<open>float\<close>, then with two or more numbers \<open>is_range\<close> is true, \<open>min\<close> is the least and
  \<open>max\<close> the greatest of them (so \<open>min \<le> max\<close>), and with exactly one number \<open>is_range\<close>
  is false, \<open>min\<close> is that number and \<open>max\<close> is \<open>None\<close>.
\<close>

theorem extract_salary_range:
  "extract_salary L F job_card = Some d \<Longrightarrow>
   \<exists>raw. find_salary_text L job_card = Some raw \<and> raw \<noteq> []
     \<and> map_of d ''text'' = Some (PStr (clean_salary_text L raw))
     \<and> (\<forall>xs. cleaned_numbers F (salary_numbers L (clean_salary_text L raw)) = Inr xs \<longrightarrow>
           length xs = length (salary_numbers L (clean_salary_text L raw))
         \<and> (\<forall>i < length xs.
               F (filter (\<lambda>c. c \<noteq> 44) (salary_numbers L (clean_salary_text L raw) ! i))
                 = Inr (xs ! i))
         \<and> (2 \<le> length xs \<longrightarrow>
               map_of d ''is_range'' = Some (PBool True)
             \<and> map_of d ''min'' = Some (PFloat (Min (set xs)))
             \<and> map_of d ''max'' = Some (PFloat (Max (set xs)))
             \<and> Min (set xs) \<le> Max (set xs))
         \<and> (length xs = 1 \<longrightarrow>
               map_of d ''is_range'' = Some (PBool False)
             \<and> map_of d ''min'' = Some (PFloat (xs ! 0))
             \<and> map_of d ''max'' = Some PNone))"
proof -
  assume a: "extract_salary L F job_card = Some d"
  then obtain raw where raw: "find_salary_text L job_card = Some raw" "raw \<noteq> []"
    and d: "d = salary_data L F (clean_salary_text L raw)"
    by (auto simp: extract_salary_def split: option.splits if_splits)
  let ?t = "clean_salary_text L raw"
  let ?ns = "salary_numbers L ?t"
  have tx: "map_of d ''text'' = Some (PStr ?t)"
    by (simp add: d salary_data_text)
  have nums: "length xs = length ?ns
         \<and> (\<forall>i < length xs. F (filter (\<lambda>c. c \<noteq> 44) (?ns ! i)) = Inr (xs ! i))
         \<and> (2 \<le> length xs \<longrightarrow>
               map_of d ''is_range'' = Some (PBool True)
             \<and> map_of d ''min'' = Some (PFloat (Min (set xs)))
             \<and> map_of d ''max'' = Some (PFloat (Max (set xs)))
             \<and> Min (set xs) \<le> Max (set xs))
         \<and> (length xs = 1 \<longrightarrow>
               map_of d ''is_range'' = Some (PBool False)
             \<and> map_of d ''min'' = Some (PFloat (xs ! 0))
             \<and> map_of d ''max'' = Some PNone)"
    if c: "cleaned_numbers F ?ns = Inr xs" for xs
  proof -
    have len: "length xs = length ?ns"
      using c by (rule cleaned_numbers_length)
    have nth: "\<forall>i < length xs. F (filter (\<lambda>c. c \<noteq> 44) (?ns ! i)) = Inr (xs ! i)"
      using c len by (simp add: cleaned_numbers_nth)
    have two: "map_of d ''is_range'' = Some (PBool True)
             \<and> map_of d ''min'' = Some (PFloat (Min (set xs)))
             \<and> map_of d ''max'' = Some (PFloat (Max (set xs)))
             \<and> Min (set xs) \<le> Max (set xs)" if "2 \<le> length xs"
    proof -
      from that have ne: "xs \<noteq> []" "?ns \<noteq> []"
        using len by auto
      then show ?thesis
        using c that by (simp add: d salary_data_def Let_def py_min_Min py_max_Max)
    qed
    have one: "map_of d ''is_range'' = Some (PBool False)
             \<and> map_of d ''min'' = Some (PFloat (xs ! 0))
             \<and> map_of d ''max'' = Some PNone" if "length xs = 1"
    proof -
      from that have ne: "xs \<noteq> []" "?ns \<noteq> []"
        using len by auto
      then show ?thesis
        using c that by (simp add: d salary_data_def Let_def)
    qed
    show ?thesis
      using len nth two one by blast
  qed
  show ?thesis
    using raw tx nums by blast
qed
theorem extract_salary_cascade_witness:
  "selector_text salary_card_a (salary_selectors ! 4)
     = Some ([163] @ u ''30,000 - '' @ [163] @ u ''40,000 per year'')
   \<and> selector_text salary_card_a (salary_selectors ! 0) = None
   \<and> selector_text salary_card_a (salary_selectors ! 1) = None
   \<and> selector_text salary_card_a (salary_selectors ! 2) = None
   \<and> selector_text salary_card_a (salary_selectors ! 3) = None
   \<and> find_salary_text pyre salary_card_a
       = Some ([163] @ u ''30,000 - '' @ [163] @ u ''40,000 per year'')
   \<and> re_search pyre (salary_patterns ! 0) True (u ''Pay: $50,000 - $60,000 a year.'') = None
   \<and> map_option mt_group0
        (re_search pyre (salary_patterns ! 1) True (u ''Pay: $50,000 - $60,000 a year.''))
       = Some (u ''$50,000 - $60,000 a year'')
   \<and> find_salary_text pyre salary_card_b = Some (u ''$50,000 - $60,000 a year'')
   \<and> extract_salary pyre example_float salary_card_c = None"
proof -
  let ?ta = "[163] @ u ''30,000 - '' @ [163] @ u ''40,000 per year''"
  let ?fb = "u ''Pay: $50,000 - $60,000 a year.''"
  let ?mb = "\<lparr>mt_start = 5, mt_end = 29, mt_group0 = u ''$50,000 - $60,000 a year'',
              mt_groups = []\<rparr>"
  have a4: "selector_text salary_card_a (salary_selectors ! 4) = Some ?ta"
    by code_simp
  have a: "\<forall>j < 4. selector_text salary_card_a (salary_selectors ! j) = None"
    by code_simp
  have l: "4 < length salary_selectors" "1 < length salary_patterns"
    by (simp_all add: salary_selectors_def salary_patterns_def)
  have fa: "find_salary_text pyre salary_card_a = Some ?ta"
    using extract_salary_cascade [of salary_card_a pyre example_float, THEN conjunct1,
        rule_format, of 4 ?ta] a4 a l
    by simp
  have "list_all (\<lambda>s. selector_text salary_card_b s = None) salary_selectors"
    by code_simp
  then have b: "\<forall>i < length salary_selectors.
                  selector_text salary_card_b (salary_selectors ! i) = None"
    by (simp add: list_all_length)
  have tb: "tag_text salary_card_b = Inr ?fb"
    by (simp add: salary_card_b_def example_card_def)
  have b0: "re_search pyre (salary_patterns ! 0) True ?fb = None"
    by code_simp
  have b1: "re_search pyre (salary_patterns ! 1) True ?fb = Some ?mb"
    by code_simp
  have sb: "py_strip (mt_group0 ?mb) = u ''$50,000 - $60,000 a year''"
    by code_simp
  have "find_salary_text pyre salary_card_b = Some (py_strip (mt_group0 ?mb))"
    using extract_salary_cascade [of salary_card_b pyre example_float, THEN conjunct2,
        THEN conjunct1, rule_format, of ?fb 1 ?mb] b tb b0 b1 l
    by simp
  then have fb: "find_salary_text pyre salary_card_b = Some (u ''$50,000 - $60,000 a year'')"
    using sb by simp
  have "list_all (\<lambda>s. selector_text salary_card_c s = None) salary_selectors"
    by code_simp
  then have c: "\<forall>i < length salary_selectors.
                  selector_text salary_card_c (salary_selectors ! i) = None"
    by (simp add: list_all_length)
  have tc: "tag_text salary_card_c = Inr (u ''No pay info'')"
    by (simp add: salary_card_c_def example_card_def)
  have "list_all (\<lambda>p. re_search pyre p True (u ''No pay info'') = None) salary_patterns"
    by code_simp
  then have pc: "\<forall>k < length salary_patterns.
                   re_search pyre (salary_patterns ! k) True (u ''No pay info'') = None"
    by (simp add: list_all_length)
  have nc: "extract_salary pyre example_float salary_card_c = None"
    using extract_salary_cascade [of salary_card_c pyre example_float, THEN conjunct2,
        THEN conjunct2] c tc pc
    by simp
  have a0: "selector_text salary_card_a (salary_selectors ! 0) = None"
    and a1: "selector_text salary_card_a (salary_selectors ! 1) = None"
    and a2: "selector_text salary_card_a (salary_selectors ! 2) = None"
    and a3: "selector_text salary_card_a (salary_selectors ! 3) = None"
    using a by simp_all
  show ?thesis
    using a4 a0 a1 a2 a3 fa b0 b1 fb nc by simp
qed

theorem extract_salary_range_witness:
  "extract_salary pyre example_float salary_card_b
     = Some [(''text'', PStr (u ''$50,000 - $60,000 a year'')),
             (''currency'', PStr (u ''USD'')), (''min'', PFloat 50000),
             (''max'', PFloat 60000), (''period'', PNone),
             (''is_range'', PBool True)]
   \<and> cleaned_numbers example_float
        (salary_numbers pyre (clean_salary_text pyre (u ''$50,000 - $60,000 a year'')))
       = Inr [50000, 60000]
   \<and> Min (set [50000, 60000 :: rat]) = 50000 \<and> Max (set [50000, 60000 :: rat]) = 60000
   \<and> extract_salary pyre example_float salary_card_d
     = Some [(''text'', PStr ([163] @ u ''25 per hour'')),
             (''currency'', PStr (u ''GBP'')), (''min'', PFloat 25),
             (''max'', PNone), (''period'', PStr (u ''hourly'')),
             (''is_range'', PBool False)]
   \<and> cleaned_numbers example_float
        (salary_numbers pyre (clean_salary_text pyre ([163] @ u ''25 per hour''))) = Inr [25]"
proof -
  let ?rb = "u ''$50,000 - $60,000 a year''"
  let ?db = "[(''text'', PStr ?rb),
             (''currency'', PStr (u ''USD'')), (''min'', PFloat 50000),
             (''max'', PFloat 60000), (''period'', PNone),
             (''is_range'', PBool True)] :: rat pydict"
  let ?rd = "[163] @ u ''25 per hour''"
  let ?dd = "[(''text'', PStr ?rd),
             (''currency'', PStr (u ''GBP'')), (''min'', PFloat 25),
             (''max'', PNone), (''period'', PStr (u ''hourly'')),
             (''is_range'', PBool False)] :: rat pydict"
  have eb: "extract_salary pyre example_float salary_card_b = Some ?db"
    by code_simp
  have fb: "find_salary_text pyre salary_card_b = Some ?rb"
    by code_simp
  have nb: "cleaned_numbers example_float (salary_numbers pyre (clean_salary_text pyre ?rb))
              = Inr [50000, 60000]"
    by code_simp
  from extract_salary_range [OF eb] fb nb
  have rb: "map_of ?db ''min'' = Some (PFloat (Min (set [50000, 60000])))
          \<and> map_of ?db ''max'' = Some (PFloat (Max (set [50000, 60000])))
          \<and> Min (set [50000, 60000 :: rat]) \<le> Max (set [50000, 60000])"
    by auto
  have ed: "extract_salary pyre example_float salary_card_d = Some ?dd"
    by code_simp
  have fd: "find_salary_text pyre salary_card_d = Some ?rd"
    by code_simp
  have nd: "cleaned_numbers example_float (salary_numbers pyre (clean_salary_text pyre ?rd))
              = Inr [25]"
    by code_simp
  from extract_salary_range [OF ed] fd nd
  have rd: "map_of ?dd ''min'' = Some (PFloat ([25] ! 0)) \<and> map_of ?dd ''max'' = Some PNone"
    by auto
  show ?thesis
    using eb nb rb ed nd rd by simp
qed

section \<open>Properties of \<open>extract_job_listings\<close>\<close>



lemma first_text_nonempty: "first_text job_card sels = Inr (Some t) \<Longrightarrow> t \<noteq> []"
  by (induction sels) (auto split: sum.splits option.splits if_splits)

lemma first_href_nonempty: "first_href job_card sels = Inr (Some h) \<Longrightarrow> h \<noteq> []"
  by (induction sels) (auto split: sum.splits option.splits if_splits)

lemma startswith_append: "startswith b p \<Longrightarrow> startswith (b @ s) p"
  by (auto simp: startswith_def) (metis append_take_drop_id append.assoc length_take
      min.absorb2 nat_le_linear take_all take_append order_refl append_eq_conv_conj)

lemma base_url_http:
  "(\<forall>c b. base_urls S c = Some b \<longrightarrow> startswith b (u ''http'')) \<Longrightarrow>
   startswith (base_url S cc) (u ''http'')"
  by (auto simp: base_url_def startswith_def u_def split: option.splits)

lemma absolute_url_http:
  "(\<forall>c b. base_urls S c = Some b \<longrightarrow> startswith b (u ''http'')) \<Longrightarrow>
   startswith (absolute_url S cc href) (u ''http'')"
  by (simp add: absolute_url_def startswith_append base_url_http)

lemma fill_fields_frame:
  "fill_fields L F job_card job = Inr job' \<Longrightarrow>
   k \<notin> {''company'', ''location'', ''description'', ''salary'', ''job_type'', ''date_posted''} \<Longrightarrow>
   map_of job' k = map_of job k"
  by (auto simp: fill_fields_def set_found_def dict_set_def update_conv'
      split: sum.splits option.splits)

lemma process_card_Some:
  assumes "process_card L F S cc idx job_card = Inr (Some job)"
  shows "\<exists>title href.
           tag_select_one job_card sponsored_selector = Inr None
         \<and> first_text job_card title_selectors = Inr (Some title)
         \<and> first_href job_card url_selectors = Inr (Some href)
         \<and> fill_fields L F job_card (basic_job S cc idx title (absolute_url S cc href)) = Inr job"
  using assms
  by (auto simp: process_card_def card_title_href_def Let_def
      split: sum.splits option.splits if_splits)

lemma process_card_record:
  assumes "process_card L F S cc idx job_card = Inr (Some job)"
  shows "\<exists>title href.
           tag_select_one job_card sponsored_selector = Inr None
         \<and> first_text job_card title_selectors = Inr (Some title)
         \<and> first_href job_card url_selectors = Inr (Some href)
         \<and> title \<noteq> []
         \<and> map_of job ''title'' = Some (PStr title)
         \<and> map_of job ''url'' = Some (PStr (absolute_url S cc href))
         \<and> map_of job ''id'' = Some (PStr (md5_hexdigest S (absolute_url S cc href)))
         \<and> map_of job ''source'' = Some (PStr (u ''ZipRecruiter''))
         \<and> map_of job ''country'' = Some (PStr cc)"
proof -
  from process_card_Some [OF assms] obtain title href where
    s: "tag_select_one job_card sponsored_selector = Inr None"
    and t: "first_text job_card title_selectors = Inr (Some title)"
    and h: "first_href job_card url_selectors = Inr (Some href)"
    and f: "fill_fields L F job_card (basic_job S cc idx title (absolute_url S cc href)) = Inr job"
    by blast
  have ne: "title \<noteq> []"
    using t by (rule first_text_nonempty)
  have k: "map_of job k = map_of (basic_job S cc idx title (absolute_url S cc href)) k"
    if "k \<in> {''title'', ''url'', ''id'', ''source'', ''country''}" for k
    using that by (intro fill_fields_frame [OF f]) auto
  have "map_of job ''title'' = Some (PStr title)"
    "map_of job ''url'' = Some (PStr (absolute_url S cc href))"
    "map_of job ''id'' = Some (PStr (md5_hexdigest S (absolute_url S cc href)))"
    "map_of job ''source'' = Some (PStr (u ''ZipRecruiter''))"
    "map_of job ''country'' = Some (PStr cc)"
    by (simp_all add: k basic_job_def)
  with s t h ne show ?thesis
    by blast
qed

lemma process_cards_member:
  "job \<in> set (process_cards L F S cc idx job_cards) \<Longrightarrow>
   \<exists>i < length job_cards. process_card L F S cc (idx + i) (job_cards ! i) = Inr (Some job)"
proof (induction job_cards arbitrary: idx)
  case Nil
  then show ?case by simp
next
  case (Cons c cs)
  show ?case
  proof (cases "process_card L F S cc idx c = Inr (Some job)")
    case True
    then show ?thesis
      by (intro exI [of _ 0]) simp
  next
    case False
    with Cons.prems have "job \<in> set (process_cards L F S cc (Suc idx) cs)"
      by (auto split: sum.splits option.splits)
    from Cons.IH [OF this] obtain i where "i < length cs"
      "process_card L F S cc (Suc idx + i) (cs ! i) = Inr (Some job)"
      by blast
    then show ?thesis
      by (intro exI [of _ "Suc i"]) simp
  qed
qed

text \<open>
  Claim C8: every record that \<open>extract_job_listings\<close> returns comes from one of the
  cards found, a card that matches no sponsored or promoted selector, has a title and has a
  URL; its title is that non-empty title; its url is the \<open>href\<close> when that starts with
  \<open>http\<close> and else the base URL of the country (the ziprecruiter.com default for a
  country without entry) followed by the \<open>href\<close>, with a \<open>/\<close> between them unless the
  \<open>href\<close> starts with one, so it starts with \<open>http\<close> when the base URLs do; its id is
  the MD5 digest of that url; its source is \<open>"ZipRecruiter"\<close> and its country is the
  \<open>country_code\<close> argument. A card that matches a sponsored or promoted selector, a card
  without title and a card without URL contribute no record.
\<close>

theorem extract_job_listings_records:
  assumes "\<forall>c b. base_urls S c = Some b \<longrightarrow> startswith b (u ''http'')"
  shows
  "(\<forall>jobs job. extract_job_listings L F S html_content cc = Inr jobs \<and> job \<in> set jobs \<longrightarrow>
      (\<exists>job_cards i title href.
          find_job_cards S html_content = Inr job_cards \<and> i < length job_cards
        \<and> tag_select_one (job_cards ! i) sponsored_selector = Inr None
        \<and> first_text (job_cards ! i) title_selectors = Inr (Some title)
        \<and> first_href (job_cards ! i) url_selectors = Inr (Some href)
        \<and> title \<noteq> []
        \<and> map_of job ''title'' = Some (PStr title)
        \<and> map_of job ''url'' = Some (PStr (absolute_url S cc href))
        \<and> startswith (absolute_url S cc href) (u ''http'')
        \<and> (startswith href (u ''http'') \<longrightarrow> absolute_url S cc href = href)
        \<and> (\<not> startswith href (u ''http'') \<and> startswith href (u ''/'') \<longrightarrow>
              absolute_url S cc href
                = (case base_urls S cc of Some b \<Rightarrow> b
                   | None \<Rightarrow> u ''https://www.ziprecruiter.com'') @ href)
        \<and> (\<not> startswith href (u ''http'') \<and> \<not> startswith href (u ''/'') \<longrightarrow>
              absolute_url S cc href
                = (case base_urls S cc of Some b \<Rightarrow> b
                   | None \<Rightarrow> u ''https://www.ziprecruiter.com'') @ u ''/'' @ href)
        \<and> map_of job ''id'' = Some (PStr (md5_hexdigest S (absolute_url S cc href)))
        \<and> map_of job ''source'' = Some (PStr (u ''ZipRecruiter''))
        \<and> map_of job ''country'' = Some (PStr cc)))
   \<and> (\<forall>job_card idx.
        (\<exists>sponsored. tag_select_one job_card sponsored_selector = Inr (Some sponsored))
        \<or> first_text job_card title_selectors = Inr None
        \<or> first_href job_card url_selectors = Inr None
        \<longrightarrow> (\<forall>job. process_card L F S cc idx job_card \<noteq> Inr (Some job))
          \<and> process_cards L F S cc idx [job_card] = [])"
proof (intro conjI allI impI)
  fix jobs job
  assume a: "extract_job_listings L F S html_content cc = Inr jobs \<and> job \<in> set jobs"
  then obtain job_cards where fc: "find_job_cards S html_content = Inr job_cards"
    and js: "jobs = process_cards L F S cc 0 job_cards"
    by (auto simp: extract_job_listings_def split: sum.splits)
  from a js process_cards_member [of job L F S cc 0 job_cards]
  obtain i where i: "i < length job_cards"
    and p: "process_card L F S cc i (job_cards ! i) = Inr (Some job)"
    by auto
  from process_card_record [OF p] obtain title href where
    r: "tag_select_one (job_cards ! i) sponsored_selector = Inr None"
       "first_text (job_cards ! i) title_selectors = Inr (Some title)"
       "first_href (job_cards ! i) url_selectors = Inr (Some href)"
       "title \<noteq> []"
       "map_of job ''title'' = Some (PStr title)"
       "map_of job ''url'' = Some (PStr (absolute_url S cc href))"
       "map_of job ''id'' = Some (PStr (md5_hexdigest S (absolute_url S cc href)))"
       "map_of job ''source'' = Some (PStr (u ''ZipRecruiter''))"
       "map_of job ''country'' = Some (PStr cc)"
    by blast
  have h: "startswith (absolute_url S cc href) (u ''http'')"
    using assms by (rule absolute_url_http)
  have u1: "startswith href (u ''http'') \<longrightarrow> absolute_url S cc href = href"
    and u2: "\<not> startswith href (u ''http'') \<and> startswith href (u ''/'') \<longrightarrow>
              absolute_url S cc href
                = (case base_urls S cc of Some b \<Rightarrow> b
                   | None \<Rightarrow> u ''https://www.ziprecruiter.com'') @ href"
    and u3: "\<not> startswith href (u ''http'') \<and> \<not> startswith href (u ''/'') \<longrightarrow>
              absolute_url S cc href
                = (case base_urls S cc of Some b \<Rightarrow> b
                   | None \<Rightarrow> u ''https://www.ziprecruiter.com'') @ u ''/'' @ href"
    by (simp_all add: absolute_url_def base_url_def)
  show "\<exists>job_cards i title href.
          find_job_cards S html_content = Inr job_cards \<and> i < length job_cards
        \<and> tag_select_one (job_cards ! i) sponsored_selector = Inr None
        \<and> first_text (job_cards ! i) title_selectors = Inr (Some title)
        \<and> first_href (job_cards ! i) url_selectors = Inr (Some href)
        \<and> title \<noteq> []
        \<and> map_of job ''title'' = Some (PStr title)
        \<and> map_of job ''url'' = Some (PStr (absolute_url S cc href))
        \<and> startswith (absolute_url S cc href) (u ''http'')
        \<and> (startswith href (u ''http'') \<longrightarrow> absolute_url S cc href = href)
        \<and> (\<not> startswith href (u ''http'') \<and> startswith href (u ''/'') \<longrightarrow>
              absolute_url S cc href
                = (case base_urls S cc of Some b \<Rightarrow> b
                   | None \<Rightarrow> u ''https://www.ziprecruiter.com'') @ href)
        \<and> (\<not> startswith href (u ''http'') \<and> \<not> startswith href (u ''/'') \<longrightarrow>
              absolute_url S cc href
                = (case base_urls S cc of Some b \<Rightarrow> b
                   | None \<Rightarrow> u ''https://www.ziprecruiter.com'') @ u ''/'' @ href)
        \<and> map_of job ''id'' = Some (PStr (md5_hexdigest S (absolute_url S cc href)))
        \<and> map_of job ''source'' = Some (PStr (u ''ZipRecruiter''))
        \<and> map_of job ''country'' = Some (PStr cc)"
    using fc i r h u1 u2 u3 by blast
next
  fix job_card idx job
  assume c: "(\<exists>sponsored. tag_select_one job_card sponsored_selector = Inr (Some sponsored))
        \<or> first_text job_card title_selectors = Inr None
        \<or> first_href job_card url_selectors = Inr None"
  show "process_card L F S cc idx job_card \<noteq> Inr (Some job)"
  proof
    assume "process_card L F S cc idx job_card = Inr (Some job)"
    from process_card_Some [OF this] c show False
      by auto
  qed
next
  fix job_card idx
  assume c: "(\<exists>sponsored. tag_select_one job_card sponsored_selector = Inr (Some sponsored))
        \<or> first_text job_card title_selectors = Inr None
        \<or> first_href job_card url_selectors = Inr None"
  have "process_card L F S cc idx job_card \<noteq> Inr (Some job)" for job
  proof
    assume "process_card L F S cc idx job_card = Inr (Some job)"
    from process_card_Some [OF this] c show False
      by auto
  qed
  then show "process_cards L F S cc idx [job_card] = []"
    by (auto split: sum.splits option.splits)
qed

lemma extract_salary_all_raise:
  assumes "\<forall>s \<in> set salary_selectors. \<exists>e. tag_select_one job_card s = Inl e"
    and "tag_text job_card = Inl e"
  shows "extract_salary L F job_card = None"
proof -
  have "selector_text job_card (salary_selectors ! i) = None" if "i < length salary_selectors" for i
  proof -
    from that assms(1) obtain e' where "tag_select_one job_card (salary_selectors ! i) = Inl e'"
      using nth_mem by blast
    then show ?thesis
      by (simp add: selector_text_def)
  qed
  then have "salary_from_selectors job_card salary_selectors = None"
    by (simp add: salary_from_selectors_None_iff)
  then show ?thesis
    using assms(2) by (simp add: extract_salary_def find_salary_text_def)
qed

lemma fill_fields_raises:
  assumes "k < length unguarded_fields"
    and "first_text job_card (unguarded_fields ! k) = Inl e"
    and "\<forall>j < k. \<exists>r. first_text job_card (unguarded_fields ! j) = Inr r"
  shows "fill_fields L F job_card job = Inl e"
proof -
  have k: "k = 0 \<or> k = 1 \<or> k = 2 \<or> k = 3 \<or> k = 4"
    using assms(1) by (auto simp: unguarded_fields_def)
  have n: "unguarded_fields ! 0 = company_selectors" "unguarded_fields ! 1 = location_selectors"
    "unguarded_fields ! 2 = description_selectors" "unguarded_fields ! 3 = job_type_selectors"
    "unguarded_fields ! 4 = date_selectors"
    by (simp_all add: unguarded_fields_def)
  have p: "\<exists>r. first_text job_card (unguarded_fields ! j) = Inr r" if "j < k" for j
    using that assms(3) by blast
  from k show ?thesis
  proof (elim disjE)
    assume "k = 0"
    with assms(2) n show ?thesis
      by (simp add: fill_fields_def)
  next
    assume "k = 1"
    with assms(2) n p [of 0] show ?thesis
      by (auto simp: fill_fields_def)
  next
    assume "k = 2"
    with assms(2) n p [of 0] p [of 1] show ?thesis
      by (auto simp: fill_fields_def)
  next
    assume "k = 3"
    with assms(2) n p [of 0] p [of 1] p [of 2] show ?thesis
      by (auto simp: fill_fields_def)
  next
    assume "k = 4"
    with assms(2) n p [of 0] p [of 1] p [of 2] p [of 3] show ?thesis
      by (auto simp: fill_fields_def)
  qed
qed

lemma fill_fields_ok:
  assumes "first_text job_card company_selectors = Inr company"
    and "first_text job_card location_selectors = Inr location"
    and "first_text job_card description_selectors = Inr description"
    and "first_text job_card job_type_selectors = Inr job_type"
    and "first_text job_card date_selectors = Inr date_posted"
  shows "\<exists>job'. fill_fields L F job_card job = Inr job'
     \<and> map_of job' ''salary''
         = Some (case extract_salary L F job_card of None \<Rightarrow> PNone | Some d \<Rightarrow> PDict d)
     \<and> map_of job' ''company''
         = (case company of None \<Rightarrow> map_of job ''company'' | Some t \<Rightarrow> Some (PStr t))
     \<and> map_of job' ''location''
         = (case location of None \<Rightarrow> map_of job ''location'' | Some t \<Rightarrow> Some (PStr t))
     \<and> map_of job' ''description''
         = (case description of None \<Rightarrow> map_of job ''description'' | Some t \<Rightarrow> Some (PStr t))
     \<and> map_of job' ''job_type''
         = (case job_type of None \<Rightarrow> map_of job ''job_type'' | Some t \<Rightarrow> Some (PStr t))
     \<and> map_of job' ''date_posted''
         = (case date_posted of None \<Rightarrow> map_of job ''date_posted'' | Some t \<Rightarrow> Some (PStr t))"
  using assms
  by (simp add: fill_fields_def set_found_def dict_set_def update_conv' split: option.splits)


theorem extract_job_listings_records_witness:
  "base_urls (example_scraper (example_page example_cards)) (u ''uk'')
     = Some (u ''https://www.ziprecruiter.co.uk'')
   \<and> startswith (u ''https://www.ziprecruiter.co.uk'') (u ''http'')
   \<and> extract_job_listings pyre example_float (example_scraper (example_page example_cards))
       [] (u ''uk'')
     = Inr [example_job (u ''Engineer'') (u ''https://www.ziprecruiter.co.uk/jobs/1''),
            example_job (u ''Analyst'') (u ''https://example.org/job/2''),
            example_job (u ''Writer'') (u ''https://www.ziprecruiter.co.uk/jobs/4'')]
   \<and> map_of (example_job (u ''Engineer'') (u ''https://www.ziprecruiter.co.uk/jobs/1''))
        ''country'' = Some (PStr (u ''uk''))
   \<and> process_cards pyre example_float (example_scraper (example_page example_cards)) (u ''uk'')
       3 [card_sponsored] = []"
proof -
  let ?S = "example_scraper (example_page example_cards)"
  let ?j1 = "example_job (u ''Engineer'') (u ''https://www.ziprecruiter.co.uk/jobs/1'')"
  let ?j2 = "example_job (u ''Analyst'') (u ''https://example.org/job/2'')"
  let ?j4 = "example_job (u ''Writer'') (u ''https://www.ziprecruiter.co.uk/jobs/4'')"
  have h: "startswith (u ''https://www.ziprecruiter.co.uk'') (u ''http'')"
    by code_simp
  then have base: "\<forall>c b. base_urls ?S c = Some b \<longrightarrow> startswith b (u ''http'')"
    by (simp add: example_scraper_def)
  have bu: "base_urls ?S (u ''uk'') = Some (u ''https://www.ziprecruiter.co.uk'')"
    by (simp add: example_scraper_def)
  note T = extract_job_listings_records [OF base, of pyre example_float "[]" "u ''uk''"]
  have e: "extract_job_listings pyre example_float ?S [] (u ''uk'') = Inr [?j1, ?j2, ?j4]"
    by code_simp
  have "\<exists>job_cards i title href. map_of ?j1 ''country'' = Some (PStr (u ''uk''))
          \<and> find_job_cards ?S [] = Inr job_cards \<and> i < length job_cards \<and> title \<noteq> []
          \<and> map_of ?j1 ''url'' = Some (PStr (absolute_url ?S (u ''uk'') href))"
    using T [THEN conjunct1, rule_format, of "[?j1, ?j2, ?j4]" ?j1] e by auto
  then have c: "map_of ?j1 ''country'' = Some (PStr (u ''uk''))"
    by blast
  have sp: "\<exists>sponsored. tag_select_one card_sponsored sponsored_selector = Inr (Some sponsored)"
    by (simp add: card_sponsored_def example_card_def)
  have s: "process_cards pyre example_float ?S (u ''uk'') 3 [card_sponsored] = []"
    using T [THEN conjunct2, rule_format, of card_sponsored 3] sp by blast
  show ?thesis
    using bu h e c s by simp
qed

text \<open>
  Claim C2, as stated, has every field failure caught with the record still returned.
  On a card whose first company selector raises, while its title and URL are found, the
  exception leaves the body of the \<open>try\<close> and the card yields no record.
\<close>

theorem field_failure_counterexample:
  "card_title_href card_company_raises = Inr (Some (u ''Tester'', u ''/jobs/3''))
   \<and> first_text card_company_raises company_selectors = Inl (Exn ''selector failed'')
   \<and> extract_job_listings pyre example_float
        (example_scraper (example_page [card_company_raises])) [] (u ''uk'')
      = (Inr [] :: exn + rat pydict list)"
  by code_simp

text \<open>
  Claim C2, amended: a failure inside the salary extraction is caught there, the salary
  is null or what the remaining stage finds (null when every salary selector raises and
  the text of the card cannot be read), and the record is extracted and returned with its
  other fields populated. A failure while the company, the location, the description, the
  job type or the date is extracted is caught by the handler of the card only: that card
  yields no record, and the loop goes on with the next card.
\<close>

theorem field_failure_handling:
  "(\<forall>title href company location description job_type date_posted.
      card_title_href job_card = Inr (Some (title, href))
      \<and> utf8_encodable (absolute_url S cc href)
      \<and> first_text job_card company_selectors = Inr company
      \<and> first_text job_card location_selectors = Inr location
      \<and> first_text job_card description_selectors = Inr description
      \<and> first_text job_card job_type_selectors = Inr job_type
      \<and> first_text job_card date_selectors = Inr date_posted
      \<longrightarrow> (\<exists>job. process_card L F S cc idx job_card = Inr (Some job)
            \<and> process_cards L F S cc idx (job_card # rest)
                = job # process_cards L F S cc (Suc idx) rest
            \<and> map_of job ''salary''
                = Some (case extract_salary L F job_card of None \<Rightarrow> PNone | Some d \<Rightarrow> PDict d)
            \<and> map_of job ''title'' = Some (PStr title)
            \<and> map_of job ''url'' = Some (PStr (absolute_url S cc href))
            \<and> map_of job ''company'' = map_option PStr company
            \<and> map_of job ''location'' = map_option PStr location
            \<and> map_of job ''description'' = map_option PStr description
            \<and> map_of job ''job_type'' = map_option PStr job_type
            \<and> map_of job ''date_posted'' = map_option PStr date_posted))
   \<and> ((\<forall>s \<in> set salary_selectors. \<exists>e. tag_select_one job_card s = Inl e)
        \<and> (\<exists>e. tag_text job_card = Inl e)
        \<longrightarrow> extract_salary L F job_card = None)
   \<and> (\<forall>title href k e.
        card_title_href job_card = Inr (Some (title, href))
        \<and> k < length unguarded_fields
        \<and> first_text job_card (unguarded_fields ! k) = Inl e
        \<and> (\<forall>j < k. \<exists>r. first_text job_card (unguarded_fields ! j) = Inr r)
        \<longrightarrow> (\<exists>e'. process_card L F S cc idx job_card = Inl e')
          \<and> process_cards L F S cc idx (job_card # rest)
              = process_cards L F S cc (Suc idx) rest)"
proof (intro conjI allI impI)
  fix title href company location description job_type date_posted
  assume a: "card_title_href job_card = Inr (Some (title, href))
      \<and> utf8_encodable (absolute_url S cc href)
      \<and> first_text job_card company_selectors = Inr company
      \<and> first_text job_card location_selectors = Inr location
      \<and> first_text job_card description_selectors = Inr description
      \<and> first_text job_card job_type_selectors = Inr job_type
      \<and> first_text job_card date_selectors = Inr date_posted"
  let ?job0 = "basic_job S cc idx title (absolute_url S cc href) :: 'a pydict"
  from a fill_fields_ok [of job_card company location description job_type date_posted L F ?job0]
  obtain job where f: "fill_fields L F job_card ?job0 = Inr job"
    and s: "map_of job ''salary''
         = Some (case extract_salary L F job_card of None \<Rightarrow> PNone | Some d \<Rightarrow> PDict d)"
    and c: "map_of job ''company''
         = (case company of None \<Rightarrow> map_of ?job0 ''company'' | Some t \<Rightarrow> Some (PStr t))"
    and l: "map_of job ''location''
         = (case location of None \<Rightarrow> map_of ?job0 ''location'' | Some t \<Rightarrow> Some (PStr t))"
    and d: "map_of job ''description''
         = (case description of None \<Rightarrow> map_of ?job0 ''description'' | Some t \<Rightarrow> Some (PStr t))"
    and j: "map_of job ''job_type''
         = (case job_type of None \<Rightarrow> map_of ?job0 ''job_type'' | Some t \<Rightarrow> Some (PStr t))"
    and p: "map_of job ''date_posted''
         = (case date_posted of None \<Rightarrow> map_of ?job0 ''date_posted'' | Some t \<Rightarrow> Some (PStr t))"
    by blast
  have pc: "process_card L F S cc idx job_card = Inr (Some job)"
    using a f by (simp add: process_card_def Let_def)
  have k: "map_of job k = map_of ?job0 k" if "k \<in> {''title'', ''url''}" for k
    using that by (intro fill_fields_frame [OF f]) auto
  have t: "map_of job ''title'' = Some (PStr title)"
    "map_of job ''url'' = Some (PStr (absolute_url S cc href))"
    by (simp_all add: k basic_job_def)
  have o: "map_of job ''company'' = map_option PStr company"
    "map_of job ''location'' = map_option PStr location"
    "map_of job ''description'' = map_option PStr description"
    "map_of job ''job_type'' = map_option PStr job_type"
    "map_of job ''date_posted'' = map_option PStr date_posted"
    using c l d j p by (simp_all add: basic_job_def split: option.splits)
  show "\<exists>job. process_card L F S cc idx job_card = Inr (Some job)
            \<and> process_cards L F S cc idx (job_card # rest)
                = job # process_cards L F S cc (Suc idx) rest
            \<and> map_of job ''salary''
                = Some (case extract_salary L F job_card of None \<Rightarrow> PNone | Some d \<Rightarrow> PDict d)
            \<and> map_of job ''title'' = Some (PStr title)
            \<and> map_of job ''url'' = Some (PStr (absolute_url S cc href))
            \<and> map_of job ''company'' = map_option PStr company
            \<and> map_of job ''location'' = map_option PStr location
            \<and> map_of job ''description'' = map_option PStr description
            \<and> map_of job ''job_type'' = map_option PStr job_type
            \<and> map_of job ''date_posted'' = map_option PStr date_posted"
    using pc s t o by (intro exI [of _ job]) simp
next
  assume "(\<forall>s \<in> set salary_selectors. \<exists>e. tag_select_one job_card s = Inl e)
        \<and> (\<exists>e. tag_text job_card = Inl e)"
  then show "extract_salary L F job_card = None"
    using extract_salary_all_raise by blast
next
  fix title href k e
  assume a: "card_title_href job_card = Inr (Some (title, href))
        \<and> k < length unguarded_fields
        \<and> first_text job_card (unguarded_fields ! k) = Inl e
        \<and> (\<forall>j < k. \<exists>r. first_text job_card (unguarded_fields ! j) = Inr r)"
  then have f: "fill_fields L F job_card job = Inl e" for job :: "'a pydict"
    by (intro fill_fields_raises [of k]) auto
  show r: "\<exists>e'. process_card L F S cc idx job_card = Inl e'"
    using a f by (auto simp: process_card_def Let_def)
  then show "process_cards L F S cc idx (job_card # rest)
              = process_cards L F S cc (Suc idx) rest"
    by auto
qed

theorem field_failure_handling_witness:
  "card_title_href card_salary_raises = Inr (Some (u ''Writer'', u ''jobs/4''))
   \<and> tag_text card_salary_raises = Inl (Exn ''get_text failed'')
   \<and> tag_select_one card_salary_raises ''.salary'' = Inl (Exn ''selector failed'')
   \<and> extract_salary pyre example_float card_salary_raises = None
   \<and> process_card pyre example_float (example_scraper (example_page example_cards)) (u ''uk'')
       4 card_salary_raises
     = Inr (Some (example_job (u ''Writer'') (u ''https://www.ziprecruiter.co.uk/jobs/4'')))
   \<and> map_of (example_job (u ''Writer'') (u ''https://www.ziprecruiter.co.uk/jobs/4''))
        ''salary'' = Some PNone
   \<and> map_of (example_job (u ''Writer'') (u ''https://www.ziprecruiter.co.uk/jobs/4''))
        ''company'' = Some (PStr (u ''Acme Ltd''))
   \<and> card_title_href card_company_raises = Inr (Some (u ''Tester'', u ''/jobs/3''))
   \<and> first_text card_company_raises (unguarded_fields ! 0) = Inl (Exn ''selector failed'')
   \<and> process_cards pyre example_float (example_scraper (example_page example_cards)) (u ''uk'')
       1 [card_company_raises, card_two]
     = process_cards pyre example_float (example_scraper (example_page example_cards)) (u ''uk'')
       2 [card_two]"
proof -
  let ?S = "example_scraper (example_page example_cards)"
  let ?j4 = "example_job (u ''Writer'') (u ''https://www.ziprecruiter.co.uk/jobs/4'')"
  note T = field_failure_handling [of _ ?S "u ''uk''" pyre example_float]
  have th: "card_title_href card_salary_raises = Inr (Some (u ''Writer'', u ''jobs/4''))"
    by code_simp
  have en: "utf8_encodable (absolute_url ?S (u ''uk'') (u ''jobs/4''))"
    by code_simp
  have f: "first_text card_salary_raises company_selectors = Inr (Some (u ''Acme Ltd''))"
    "first_text card_salary_raises location_selectors = Inr None"
    "first_text card_salary_raises description_selectors = Inr None"
    "first_text card_salary_raises job_type_selectors = Inr None"
    "first_text card_salary_raises date_selectors = Inr None"
    by code_simp+
  have tx: "tag_text card_salary_raises = Inl (Exn ''get_text failed'')"
    by (simp add: card_salary_raises_def raising_card_def)
  have sr: "\<forall>s \<in> set salary_selectors.
              \<exists>e. tag_select_one card_salary_raises s = Inl e"
    by (simp add: card_salary_raises_def raising_card_def)
  have s0: "tag_select_one card_salary_raises ''.salary'' = Inl (Exn ''selector failed'')"
    by (simp add: card_salary_raises_def raising_card_def salary_selectors_def)
  have none: "extract_salary pyre example_float card_salary_raises = None"
    using T [of card_salary_raises, THEN conjunct2, THEN conjunct1] sr tx by blast
  have p: "process_card pyre example_float ?S (u ''uk'') 4 card_salary_raises = Inr (Some ?j4)"
    by code_simp
  from T [of card_salary_raises 4, THEN conjunct1, rule_format,
      of "u ''Writer''" "u ''jobs/4''" "Some (u ''Acme Ltd'')" None None None None] th en f
  obtain job where "process_card pyre example_float ?S (u ''uk'') 4 card_salary_raises
                      = Inr (Some job)"
    and "map_of job ''salary''
           = Some (case extract_salary pyre example_float card_salary_raises of
                     None \<Rightarrow> PNone | Some d \<Rightarrow> PDict d)"
    and "map_of job ''company'' = map_option PStr (Some (u ''Acme Ltd''))"
    by blast
  with p none have m: "map_of ?j4 ''salary'' = Some PNone"
    "map_of ?j4 ''company'' = Some (PStr (u ''Acme Ltd''))"
    by simp_all
  have tc: "card_title_href card_company_raises = Inr (Some (u ''Tester'', u ''/jobs/3''))"
    by code_simp
  have l: "0 < length unguarded_fields"
    by (simp add: unguarded_fields_def)
  have r: "first_text card_company_raises (unguarded_fields ! 0) = Inl (Exn ''selector failed'')"
    by code_simp
  have skip: "process_cards pyre example_float ?S (u ''uk'') 1 [card_company_raises, card_two]
        = process_cards pyre example_float ?S (u ''uk'') (Suc 1) [card_two]"
    using T [of card_company_raises 1 "[card_two]", THEN conjunct2, THEN conjunct2, rule_format,
        of "u ''Tester''" "u ''/jobs/3''" 0 "Exn ''selector failed''"] tc l r
    by simp
  show ?thesis
    using th tx s0 none p m tc r skip by (simp add: numeral_2_eq_2)
qed

section \<open>Properties of the description sections\<close>

lemma update_nonempty: "AList.update k v d \<noteq> []"
  by (cases d) simp_all

lemma update_keys: "fst ` set (AList.update k v d) = insert k (fst ` set d)"
  by (simp add: dom_update)

lemma match_section_key:
  "match_section secs s = Some k \<Longrightarrow> k \<in> fst ` set secs"
  by (induction secs s rule: match_section.induct) (auto split: if_splits)

lemma wf_sections_Nil: "wf_sections []"
  by (simp add: wf_sections_def)

lemma wf_sections_update:
  "wf_sections d \<Longrightarrow> k \<in> set section_names \<Longrightarrow> wf_sections (AList.update k v d)"
  unfolding wf_sections_def list_all_iff
  using update_keys [of k v d] by (auto simp: distinct_update)

lemma match_section_name:
  "match_section section_keywords s = Some k \<Longrightarrow> k \<in> set section_names"
  using match_section_key [of section_keywords s k] by (auto simp: section_names_def)

lemma html_sections_wf:
  "html_sections L hs sc = Inr r \<Longrightarrow> wf_sections sc \<Longrightarrow> wf_sections r"
proof (induction hs arbitrary: sc)
  case Nil
  then show ?case by simp
next
  case (Cons h hs)
  obtain g sibs where h: "h = (g, sibs)" by (cases h)
  show ?case
    using Cons.prems Cons.IH h
    by (auto simp: Let_def wf_sections_update match_section_name
             split: sum.splits if_splits option.splits)
qed

lemma text_lines_wf:
  "wf_sections sc \<Longrightarrow> (\<forall>c. cur = Some c \<longrightarrow> c \<in> set section_names)
   \<Longrightarrow> wf_sections (text_lines L ls cur sc sl)"
proof (induction ls arbitrary: cur sc sl)
  case Nil
  then show ?case by (auto simp: wf_sections_update split: option.splits)
next
  case (Cons l ls)
  show ?case
    using Cons.prems
    by (auto simp: Let_def wf_sections_update match_section_name
             intro!: Cons.IH split: option.splits if_splits)
qed

lemma bullet_stage_wf:
  "wf_sections sc \<Longrightarrow> wf_sections (bullet_stage L t sc)"
  by (auto simp: bullet_stage_def Let_def section_names_def section_keywords_def
           intro!: wf_sections_update)

lemma classify_name: "classify L s = Some k \<Longrightarrow> k \<in> set section_names \<and> k \<noteq> ''job_overview''"
  by (auto simp: classify_def Let_def section_names_def section_keywords_def split: if_splits)

lemma classify_all_wf: "wf_sections sc \<Longrightarrow> wf_sections (classify_all L xs sc)"
  by (induction xs arbitrary: sc) (auto simp: wf_sections_update classify_name split: option.splits)

lemma classify_all_nonempty: "sc \<noteq> [] \<Longrightarrow> classify_all L xs sc \<noteq> []"
  by (induction xs arbitrary: sc) (auto simp: update_nonempty split: option.splits)

lemma classify_all_overview:
  "map_of (classify_all L xs sc) ''job_overview'' = map_of sc ''job_overview''"
  by (induction xs arbitrary: sc) (auto simp: update_conv' dest: classify_name split: option.splits)

lemma wf_overview: "wf_sections [(''job_overview'', v)]"
  by (simp add: wf_sections_def section_names_def section_keywords_def)

lemma overview_stage_wf: "wf_sections (overview_stage L t)"
  by (auto simp: overview_stage_def Let_def wf_overview intro!: classify_all_wf)

lemma overview_stage_nonempty: "overview_stage L t \<noteq> []"
  by (auto simp: overview_stage_def Let_def intro!: classify_all_nonempty)

lemma overview_stage_overview: "map_of (overview_stage L t) ''job_overview'' \<noteq> None"
  by (auto simp: overview_stage_def Let_def classify_all_overview)

lemma overview_stage_short:
  "length t < 500 \<Longrightarrow> overview_stage L t = [(''job_overview'', py_strip t)]"
  by (simp add: overview_stage_def)

lemma bullet_stage_keys: "fst ` set sc \<subseteq> fst ` set (bullet_stage L t sc)"
  by (auto simp: bullet_stage_def Let_def update_keys)

lemma html_sections_lookup:
  "html_sections L hs sc = Inr r \<Longrightarrow>
   map_of r k = (if headers_of L k hs = [] then map_of sc k
                 else Some (join [10] (header_content (last (headers_of L k hs)))))"
proof (induction hs arbitrary: sc)
  case Nil
  then show ?case by (simp add: headers_of_def)
next
  case (Cons h hs)
  obtain g sibs where h: "h = (g, sibs)" by (cases h)
  from Cons.prems h obtain t where g: "g = Inr t"
    by (cases g) auto
  define ht where "ht = str_lower L (py_strip t)"
  show ?case
  proof (cases "header_section L h")
    case None
    then have "html_sections L hs sc = Inr r"
      using Cons.prems h g
      by (auto simp: header_section_def Let_def split: if_splits)
    from Cons.IH [OF this] None show ?thesis
      by (simp add: headers_of_def)
  next
    case (Some m)
    then have m: "ht \<noteq> []" "\<not> 50 < length ht" "match_section section_keywords ht = Some m"
      using h g by (auto simp: header_section_def Let_def ht_def split: if_splits)
    from Cons.prems h g m obtain content where c: "collect_content sibs = Inr content"
      by (cases "collect_content sibs") (auto simp: Let_def ht_def)
    have hc: "header_content h = content"
      using c h by (simp add: header_content_def)
    show ?thesis
    proof (cases "content = []")
      case True
      then have "html_sections L hs sc = Inr r"
        using Cons.prems h g m c by (auto simp: Let_def ht_def)
      from Cons.IH [OF this] hc True show ?thesis
        by (simp add: headers_of_def)
    next
      case False
      then have "html_sections L hs (AList.update m (join [10] content) sc) = Inr r"
        using Cons.prems h g m c by (auto simp: Let_def ht_def)
      from Cons.IH [OF this] hc False Some show ?thesis
        by (auto simp: headers_of_def update_conv')
    qed
  qed
qed

lemma text_lines_announced:
  "k \<in> fst ` set (text_lines L ls cur sc sl) \<Longrightarrow>
   k \<in> fst ` set sc \<or> cur = Some k \<or> (\<exists>l \<in> set ls. header_line L l = Some k)"
proof (induction ls arbitrary: cur sc sl)
  case Nil
  then show ?case by (auto simp: update_keys split: option.splits if_splits)
next
  case (Cons l ls)
  show ?case
  proof (cases "py_strip l = []")
    case True
    then show ?thesis using Cons.prems Cons.IH [of cur sc sl] by auto
  next
    case False
    show ?thesis
    proof (cases "header_line L l")
      case None
      then have n: "(if length (py_strip l) < 50
                     then match_section section_keywords (str_lower L (py_strip l)) else None) = None"
        using False by (auto simp: header_line_def Let_def)
      show ?thesis
      proof (cases cur)
        case None
        then show ?thesis
          using Cons.prems False n Cons.IH [of cur sc sl] by (auto simp: Let_def)
      next
        case (Some c)
        then show ?thesis
          using Cons.prems False n Cons.IH [of cur sc "sl @ [py_strip l]"] by (auto simp: Let_def)
      qed
    next
      case (Some m)
      then have n: "(if length (py_strip l) < 50
                     then match_section section_keywords (str_lower L (py_strip l)) else None) = Some m"
        using False by (auto simp: header_line_def Let_def split: if_splits)
      define sc' where "sc' = (case cur of
                 Some c \<Rightarrow> if sl \<noteq> []
                           then AList.update c (join [10] sl) sc
                           else sc
               | None \<Rightarrow> sc)"
      have "text_lines L (l # ls) cur sc sl = text_lines L ls (Some m) sc' []"
        using False n by (simp add: Let_def sc'_def)
      with Cons.prems have "k \<in> fst ` set (text_lines L ls (Some m) sc' [])" by simp
      from Cons.IH [OF this]
      have "k \<in> fst ` set sc' \<or> m = k \<or> (\<exists>l \<in> set ls. header_line L l = Some k)" by simp
      moreover have "fst ` set sc' \<subseteq> fst ` set sc \<union> {c. cur = Some c}"
        by (auto simp: sc'_def update_keys split: option.splits if_splits)
      ultimately show ?thesis using Some by auto
    qed
  qed
qed

lemma text_stage_announced:
  "k \<in> fst ` set (text_stage L t) \<Longrightarrow> \<exists>l \<in> set (split_chr 10 t). header_line L l = Some k"
  using text_lines_announced [of k L "split_chr 10 t" None "[]" "[]"]
  by (simp add: text_stage_def)

lemma bullet_stage_nonempty: "sc \<noteq> [] \<Longrightarrow> bullet_stage L t sc \<noteq> []"
  using bullet_stage_keys [of sc L t] by (cases sc) auto

lemma html_stage_wf: "html_stage L H h = Inr hs \<Longrightarrow> wf_sections hs"
  using html_sections_wf [of L _ "[]" hs]
  by (auto simp: html_stage_def wf_sections_Nil split: if_splits sum.splits)

lemma text_stage_wf: "wf_sections (text_stage L t)"
  by (simp add: text_stage_def text_lines_wf wf_sections_Nil)

lemma structure_description_Inl:
  "html_stage L H h = Inl e \<Longrightarrow> t \<noteq> [] \<Longrightarrow>
   structure_description L H t h = [(''job_overview'', py_strip t)]"
  by (simp add: structure_description_def structure_body_def)

lemma structure_description_Inr:
  "html_stage L H h = Inr hs \<Longrightarrow> t \<noteq> [] \<Longrightarrow>
   structure_description L H t h =
     (let s1 = (if hs \<noteq> [] then hs else text_stage L t);
          s2 = (if length s1 < 2 then bullet_stage L t s1 else s1)
      in if s2 = [] then overview_stage L t else s2)"
  by (simp add: structure_description_def structure_body_def Let_def)

text \<open>
  Claim C5. For a description text that is not empty, \<open>structure_description\<close> returns a
  dictionary that is not empty, with distinct keys among the section names. The stages
  fall back in order: when the HTML stage raises, the result is \<open>{"job_overview": the
  stripped text}\<close>; when the HTML stage finds sections (for each section the content after
  the last header that names it), they are the result, with the bullet stage on top when
  there is only one; otherwise the sections of the text stage, each announced by a header
  line of the text; otherwise the bullet stage alone; otherwise the overview stage, which
  always has the key \<open>job_overview\<close> and is \<open>{"job_overview": the stripped text}\<close> for a text
  of fewer than 500 characters.
\<close>

theorem structure_description_fallbacks:
  assumes "description_text \<noteq> []"
  shows "structure_description L H description_text description_html \<noteq> []
    \<and> wf_sections (structure_description L H description_text description_html)
    \<and> (\<forall>e. html_stage L H description_html = Inl e \<longrightarrow>
          structure_description L H description_text description_html
            = [(''job_overview'', py_strip description_text)])
    \<and> (\<forall>headers sc k.
          truthy description_html \<and> H description_html = Inr headers
          \<and> html_sections L headers [] = Inr sc \<longrightarrow>
          html_stage L H description_html = Inr sc
          \<and> map_of sc k =
              (if headers_of L k headers = [] then None
               else Some (join [10] (header_content (last (headers_of L k headers))))))
    \<and> (\<not> truthy description_html \<longrightarrow> html_stage L H description_html = Inr [])
    \<and> (\<forall>sc. html_stage L H description_html = Inr sc \<and> sc \<noteq> [] \<longrightarrow>
          structure_description L H description_text description_html
            = (if length sc < 2 then bullet_stage L description_text sc else sc)
          \<and> fst ` set sc
              \<subseteq> fst ` set (structure_description L H description_text description_html))
    \<and> (html_stage L H description_html = Inr [] \<and> text_stage L description_text \<noteq> [] \<longrightarrow>
          structure_description L H description_text description_html
            = (if length (text_stage L description_text) < 2
               then bullet_stage L description_text (text_stage L description_text)
               else text_stage L description_text)
          \<and> (\<forall>k \<in> fst ` set (text_stage L description_text).
                \<exists>l \<in> set (split_chr 10 description_text). header_line L l = Some k))
    \<and> (html_stage L H description_html = Inr [] \<and> text_stage L description_text = []
        \<and> bullet_stage L description_text [] \<noteq> [] \<longrightarrow>
          structure_description L H description_text description_html
            = bullet_stage L description_text [])
    \<and> (html_stage L H description_html = Inr [] \<and> text_stage L description_text = []
        \<and> bullet_stage L description_text [] = [] \<longrightarrow>
          structure_description L H description_text description_html
            = overview_stage L description_text
          \<and> map_of (structure_description L H description_text description_html)
               ''job_overview'' \<noteq> None
          \<and> (length description_text < 500 \<longrightarrow>
               structure_description L H description_text description_html
                 = [(''job_overview'', py_strip description_text)]))"
    (is "?c1 \<and> ?c2 \<and> ?c3 \<and> ?c4 \<and> ?c5 \<and> ?c6 \<and> ?c7 \<and> ?c8 \<and> ?c9")
proof -
  let ?t = description_text and ?h = description_html
  let ?R = "structure_description L H ?t ?h"
  note ne = assms
  have c3: ?c3 using ne by (simp add: structure_description_Inl)
  have c12: "?c1 \<and> ?c2"
  proof (cases "html_stage L H ?h")
    case (Inl e)
    then show ?thesis
      using ne by (simp add: structure_description_Inl wf_overview)
  next
    case (Inr hs)
    note R = structure_description_Inr [OF Inr ne]
    have w: "wf_sections hs" using Inr by (rule html_stage_wf)
    show ?thesis
      unfolding R Let_def
      using w
      by (auto simp: overview_stage_nonempty overview_stage_wf text_stage_wf
               intro!: bullet_stage_wf)
  qed
  have c4: ?c4
  proof (intro allI impI)
    fix headers sc k
    assume a: "truthy ?h \<and> H ?h = Inr headers \<and> html_sections L headers [] = Inr sc"
    then have "html_stage L H ?h = Inr sc" by (simp add: html_stage_def)
    moreover have "map_of sc k =
              (if headers_of L k headers = [] then None
               else Some (join [10] (header_content (last (headers_of L k headers)))))"
      using html_sections_lookup [of L headers "[]" sc k] a by simp
    ultimately show "html_stage L H ?h = Inr sc
          \<and> map_of sc k =
              (if headers_of L k headers = [] then None
               else Some (join [10] (header_content (last (headers_of L k headers)))))"
      by simp
  qed
  have c5: ?c5 by (simp add: html_stage_def)
  have c6: ?c6
  proof (intro allI impI)
    fix sc
    assume a: "html_stage L H ?h = Inr sc \<and> sc \<noteq> []"
    then have R: "?R = (if length sc < 2 then bullet_stage L ?t sc else sc)"
      using structure_description_Inr [of L H ?h sc ?t] ne
      by (auto simp: Let_def bullet_stage_nonempty)
    moreover have "fst ` set sc \<subseteq> fst ` set ?R"
      unfolding R using bullet_stage_keys [of sc L ?t] by simp
    ultimately show "?R = (if length sc < 2 then bullet_stage L ?t sc else sc)
          \<and> fst ` set sc \<subseteq> fst ` set ?R" by simp
  qed
  have c7: ?c7
  proof (intro impI)
    assume a: "html_stage L H ?h = Inr [] \<and> text_stage L ?t \<noteq> []"
    then have "?R = (if length (text_stage L ?t) < 2
               then bullet_stage L ?t (text_stage L ?t) else text_stage L ?t)"
      using structure_description_Inr [of L H ?h "[]" ?t] ne
      by (auto simp: Let_def bullet_stage_nonempty)
    moreover have "\<forall>k \<in> fst ` set (text_stage L ?t).
                \<exists>l \<in> set (split_chr 10 ?t). header_line L l = Some k"
      using text_stage_announced [of _ L ?t] by blast
    ultimately show "?R = (if length (text_stage L ?t) < 2
               then bullet_stage L ?t (text_stage L ?t) else text_stage L ?t)
          \<and> (\<forall>k \<in> fst ` set (text_stage L ?t).
                \<exists>l \<in> set (split_chr 10 ?t). header_line L l = Some k)" by simp
  qed
  have c8: ?c8
    using structure_description_Inr [of L H ?h "[]" ?t] ne by (auto simp: Let_def)
  have c9: ?c9
    using structure_description_Inr [of L H ?h "[]" ?t] ne
    by (auto simp: Let_def overview_stage_overview overview_stage_short)
  show ?thesis
    using c12 c3 c4 c5 c6 c7 c8 c9 by blast
qed

theorem structure_description_fallbacks_witness:
  "u ''Great job'' \<noteq> []
   \<and> html_stage pyre example_parse (PStr (u ''<b>'')) = Inl (Exn ''ParserRejectedMarkup'')
   \<and> structure_description pyre example_parse (u ''Great job'') (PStr (u ''<b>''))
       = [(''job_overview'', u ''Great job'')]
   \<and> html_stage pyre example_parse (PStr example_html)
       = Inr [(''requirements'', u ''Python''), (''benefits'', u ''Pension'')]
   \<and> structure_description pyre example_parse (u ''Great job'') (PStr example_html)
       = [(''requirements'', u ''Python''), (''benefits'', u ''Pension'')]
   \<and> example_headed_text \<noteq> []
   \<and> html_stage pyre example_parse PNone = Inr []
   \<and> text_stage pyre example_headed_text
       = [(''requirements'', join [10] [u ''Python'', u ''SQL'']), (''benefits'', u ''Pension'')]
   \<and> structure_description pyre example_parse example_headed_text PNone
       = [(''requirements'', join [10] [u ''Python'', u ''SQL'']), (''benefits'', u ''Pension'')]
   \<and> example_bullet_text \<noteq> []
   \<and> text_stage pyre example_bullet_text = []
   \<and> bullet_stage pyre example_bullet_text []
       = [(''responsibilities'',
           join [10] [[8226, 32] @ u ''manage a'', [8226, 32] @ u ''develop b'',
                      [8226, 32] @ u ''lead c''])]
   \<and> structure_description pyre example_parse example_bullet_text PNone
       = [(''responsibilities'',
           join [10] [[8226, 32] @ u ''manage a'', [8226, 32] @ u ''develop b'',
                      [8226, 32] @ u ''lead c''])]
   \<and> text_stage pyre (u ''Great job'') = []
   \<and> bullet_stage pyre (u ''Great job'') [] = []
   \<and> structure_description pyre example_parse (u ''Great job'') PNone
       = [(''job_overview'', u ''Great job'')]"
proof -
  let ?g = "u ''Great job''"
  let ?req = "[(''requirements'', u ''Python''), (''benefits'', u ''Pension'')]"
  let ?ts = "[(''requirements'', join [10] [u ''Python'', u ''SQL'']), (''benefits'', u ''Pension'')]"
  let ?bs = "[(''responsibilities'',
           join [10] [[8226, 32] @ u ''manage a'', [8226, 32] @ u ''develop b'',
                      [8226, 32] @ u ''lead c''])]"
  note T = structure_description_fallbacks
  have ne: "?g \<noteq> []" "example_headed_text \<noteq> []" "example_bullet_text \<noteq> []"
    by code_simp+
  have h1: "html_stage pyre example_parse (PStr (u ''<b>'')) = Inl (Exn ''ParserRejectedMarkup'')"
    by code_simp
  have r1: "structure_description pyre example_parse ?g (PStr (u ''<b>''))
              = [(''job_overview'', ?g)]"
    using T [OF ne(1), of pyre example_parse "PStr (u ''<b>'')",
             THEN conjunct2, THEN conjunct2, THEN conjunct1, rule_format, OF h1]
    by code_simp
  have h2: "html_stage pyre example_parse (PStr example_html) = Inr ?req"
    by code_simp
  have r2: "structure_description pyre example_parse ?g (PStr example_html) = ?req"
    using T [OF ne(1), of pyre example_parse "PStr example_html",
             THEN conjunct2, THEN conjunct2, THEN conjunct2, THEN conjunct2, THEN conjunct2,
             THEN conjunct1, rule_format, of ?req] h2
    by simp
  have h3: "html_stage pyre example_parse PNone = Inr []"
    by code_simp
  have t3: "text_stage pyre example_headed_text = ?ts"
    by code_simp
  have r3: "structure_description pyre example_parse example_headed_text PNone = ?ts"
    using T [OF ne(2), of pyre example_parse PNone,
             THEN conjunct2, THEN conjunct2, THEN conjunct2, THEN conjunct2, THEN conjunct2,
             THEN conjunct2, THEN conjunct1] h3 t3
    by simp
  have t4: "text_stage pyre example_bullet_text = []"
    by code_simp
  have b4: "bullet_stage pyre example_bullet_text [] = ?bs"
    by code_simp
  have r4: "structure_description pyre example_parse example_bullet_text PNone = ?bs"
    using T [OF ne(3), of pyre example_parse PNone,
             THEN conjunct2, THEN conjunct2, THEN conjunct2, THEN conjunct2, THEN conjunct2,
             THEN conjunct2, THEN conjunct2, THEN conjunct1] h3 t4 b4
    by simp
  have t5: "text_stage pyre ?g = []"
    by code_simp
  have b5: "bullet_stage pyre ?g [] = []"
    by code_simp
  have s5: "py_strip ?g = ?g" "length ?g < 500"
    by code_simp+
  have r5: "structure_description pyre example_parse ?g PNone = [(''job_overview'', ?g)]"
    using T [OF ne(1), of pyre example_parse PNone,
             THEN conjunct2, THEN conjunct2, THEN conjunct2, THEN conjunct2, THEN conjunct2,
             THEN conjunct2, THEN conjunct2, THEN conjunct2,
             THEN mp, OF conjI [OF h3 conjI [OF t5 b5]],
             THEN conjunct2, THEN conjunct2, THEN mp, OF s5(2)] s5(1)
    by simp
  show ?thesis
    using ne h1 r1 h2 r2 h3 t3 r3 t4 b4 r4 t5 b5 r5 by simp
qed

section \<open>Properties of the CSV export\<close>












text \<open>
  A run with a value that cannot be encoded: of three records, the second with a lone
  surrogate as title, only the first reaches the file.
\<close>

lemma export_to_csv_surrogate:
  "map (\<lambda>row. row ! 0)
     (the (export_to_csv (\<lambda>f. True)
        ([[(''title'', PStr (u ''A''))], [(''title'', PStr [55296])],
          [(''title'', PStr (u ''B''))]] :: int pydict list) ''jobs.csv''))
   = [PStr (u ''title''), PStr (u ''A'')]"
  by (simp add: export_to_csv_def Let_def row_writable_def dict_to_list_def
      dict_get_default_def headers_def utf8_encodable_def u_def)

end
